theory Spec2Isabelle
  imports Main "HOL-Library.Word" "HOL-Library.AList"
begin

unbundle bit_operations_syntax

section \<open>Diagnostics\<close>

text \<open>
  \<open>class Diagnostic\<close> of \<open>tstyche.js\<close>: a text (one or several lines) and a category.
  Origin, code and related information only feed the reporters and are left out. A diagnostic of the TypeScript
  compiler (as attached to test members by the collector) is a separate record;
  \<open>Diagnostic.fromDiagnostics\<close> turns each into an error.
\<close>

datatype DiagnosticCategory = Error | Warning

record Diagnostic =
  diagText :: "string list"
  category :: DiagnosticCategory

record TsDiagnostic =
  code :: int
  messageText :: string

definition error_d :: "string list \<Rightarrow> Diagnostic" where
  "error_d t = \<lparr>diagText = t, category = Error\<rparr>"

definition warning_d :: "string list \<Rightarrow> Diagnostic" where
  "warning_d t = \<lparr>diagText = t, category = Warning\<rparr>"

definition fromDiagnostics :: "TsDiagnostic list \<Rightarrow> Diagnostic list" where
  "fromDiagnostics ds = map (\<lambda>d. \<lparr>diagText = [messageText d], category = Error\<rparr>) ds"

section \<open>Result objects\<close>

text \<open>
  \<open>class ResultCount\<close>: four counters, and \<open>total\<close> as the getter computes it.
\<close>

record ResultCount =
  failed :: nat
  passed :: nat
  skipped :: nat
  todo :: nat

definition total :: "ResultCount \<Rightarrow> nat" where
  "total c = failed c + passed c + skipped c + todo c"

definition newResultCount :: ResultCount where
  "newResultCount = \<lparr>failed = 0, passed = 0, skipped = 0, todo = 0\<rparr>"

datatype ResultStatus = Runs | Passed | Failed | Skipped | Todo

text \<open>
  Result objects are shared between the code that publishes an event and the handler
  that mutates them, so they live in a store and are named by references. A reference
  to a describe, test or expect result carries its class, because the handler's
  \<open>#describeResult\<close> cursor and the \<open>parent\<close> fields can hold either.
\<close>

type_synonym ref = nat

datatype ResultRef = DescribeRef ref | TestRef ref | ExpectRef ref

text \<open>\<open>class Result\<close> (one per run). The \<open>timing\<close> fields of all classes hold wall-clock
  readings and are not modelled.\<close>

record Result =
  expectCount :: ResultCount
  fileCount :: ResultCount
  targetCount :: ResultCount
  testCount :: ResultCount
  results :: "ref list"

record TargetResult =
  results_target :: "(string option \<times> ref) list"
  status_target :: ResultStatus
  versionTag :: string

record ProjectResult =
  diagnostics_project :: "Diagnostic list"
  results_project :: "ref list"

record TaskResult =
  diagnostics_task :: "Diagnostic list"
  expectCount_task :: ResultCount
  results_task :: "ResultRef list"
  status_task :: ResultStatus
  testCount_task :: ResultCount
  filePath_task :: string

record DescribeResult =
  parent_describe :: "ResultRef option"
  results_describe :: "ResultRef list"

record TestResult =
  diagnostics_test :: "Diagnostic list"
  expectCount_test :: ResultCount
  parent_test :: "ResultRef option"
  results_test :: "ResultRef list"
  status_test :: ResultStatus

record ExpectResult =
  diagnostics_expect :: "Diagnostic list"
  parent_expect :: "ResultRef option"
  status_expect :: ResultStatus

definition newResult :: Result where
  "newResult = \<lparr>expectCount = newResultCount, fileCount = newResultCount,
     targetCount = newResultCount, testCount = newResultCount, results = []\<rparr>"

definition newTargetResult :: "string \<Rightarrow> TargetResult" where
  "newTargetResult tag = \<lparr>results_target = [], status_target = Runs, versionTag = tag\<rparr>"

definition newProjectResult :: ProjectResult where
  "newProjectResult = \<lparr>diagnostics_project = [], results_project = []\<rparr>"

definition newTaskResult :: "string \<Rightarrow> TaskResult" where
  "newTaskResult p = \<lparr>diagnostics_task = [], expectCount_task = newResultCount,
     results_task = [], status_task = Runs, testCount_task = newResultCount, filePath_task = p\<rparr>"

definition newDescribeResult :: "ResultRef option \<Rightarrow> DescribeResult" where
  "newDescribeResult p = \<lparr>parent_describe = p, results_describe = []\<rparr>"

definition newTestResult :: "ResultRef option \<Rightarrow> TestResult" where
  "newTestResult p = \<lparr>diagnostics_test = [], expectCount_test = newResultCount,
     parent_test = p, results_test = [], status_test = Runs\<rparr>"

definition newExpectResult :: "ResultRef option \<Rightarrow> ExpectResult" where
  "newExpectResult p = \<lparr>diagnostics_expect = [], parent_expect = p, status_expect = Runs\<rparr>"

section \<open>Events\<close>

text \<open>
  An event is a pair of a name and a payload; the constructors below are the names the
  code dispatches (\<open>"describe:start"\<close> is \<open>DescribeStart\<close>, and so on), each with the
  payload fields the handlers read.
\<close>

datatype Event =
    RunStart ref
  | RunEnd ref
  | TargetStart ref
  | TargetEnd ref
  | StoreError "Diagnostic list"
  | ProjectUses "string option"
  | ProjectError "Diagnostic list"
  | TaskStart ref
  | TaskError "Diagnostic list" ref
  | TaskEnd ref
  | DescribeStart ref
  | DescribeEnd ref
  | TestStart ref
  | TestError "Diagnostic list" ref
  | TestFail ref
  | TestPass ref
  | TestSkip ref
  | TestTodo ref
  | ExpectStart ref
  | ExpectError "Diagnostic list" ref
  | ExpectFail "Diagnostic list" ref
  | ExpectPass ref
  | ExpectSkip ref
  | DeprecationInfo "Diagnostic list"
  | WatchError "Diagnostic list"
  | StoreAdds

text \<open>The \<open>diagnostics\<close> field of a payload, when the payload has one.\<close>

fun payloadDiagnostics :: "Event \<Rightarrow> Diagnostic list option" where
  "payloadDiagnostics (StoreError ds) = Some ds"
| "payloadDiagnostics (ProjectError ds) = Some ds"
| "payloadDiagnostics (TaskError ds r) = Some ds"
| "payloadDiagnostics (TestError ds r) = Some ds"
| "payloadDiagnostics (ExpectError ds r) = Some ds"
| "payloadDiagnostics (ExpectFail ds r) = Some ds"
| "payloadDiagnostics (DeprecationInfo ds) = Some ds"
| "payloadDiagnostics (WatchError ds) = Some ds"
| "payloadDiagnostics e = None"

section \<open>Cancellation\<close>

datatype CancellationReason = ConfigChange | ConfigError | FailFast | WatchClose

record CancellationToken =
  isCancelled :: bool
  reason :: "CancellationReason option"

definition newCancellationToken :: CancellationToken where
  "newCancellationToken = \<lparr>isCancelled = False, reason = None\<rparr>"

definition cancel :: "CancellationReason \<Rightarrow> CancellationToken \<Rightarrow> CancellationToken" where
  "cancel r t = (if \<not> isCancelled t then t\<lparr>isCancelled := True, reason := Some r\<rparr> else t)"

definition reset :: "CancellationToken \<Rightarrow> CancellationToken" where
  "reset t = (if isCancelled t then t\<lparr>isCancelled := False, reason := None\<rparr> else t)"

section \<open>The state of a run\<close>

text \<open>
  Everything the run mutates: the log of dispatched events (the observable the claims
  speak about), the cancellation token, whether a \<open>CancellationHandler\<close> is subscribed
  (and with which reason), the seven cursors of \<open>ResultHandler\<close>, and the store of result
  objects with its allocation counter.
\<close>

record State =
  published :: "Event list"
  token :: CancellationToken
  cancellationHandler :: "CancellationReason option"
  result_h :: "ref option"
  targetResult_h :: "ref option"
  projectResult_h :: "ref option"
  taskResult_h :: "ref option"
  describeResult_h :: "ResultRef option"
  testResult_h :: "ref option"
  expectResult_h :: "ref option"
  runHeap :: "ref \<Rightarrow> Result"
  targetHeap :: "ref \<Rightarrow> TargetResult"
  projectHeap :: "ref \<Rightarrow> ProjectResult"
  taskHeap :: "ref \<Rightarrow> TaskResult"
  describeHeap :: "ref \<Rightarrow> DescribeResult"
  testHeap :: "ref \<Rightarrow> TestResult"
  expectHeap :: "ref \<Rightarrow> ExpectResult"
  nextRef :: ref

definition initialState :: "CancellationToken \<Rightarrow> State" where
  "initialState t = \<lparr>published = [], token = t, cancellationHandler = None,
     result_h = None, targetResult_h = None, projectResult_h = None, taskResult_h = None,
     describeResult_h = None, testResult_h = None, expectResult_h = None,
     runHeap = (\<lambda>_. newResult), targetHeap = (\<lambda>_. newTargetResult []),
     projectHeap = (\<lambda>_. newProjectResult), taskHeap = (\<lambda>_. newTaskResult []),
     describeHeap = (\<lambda>_. newDescribeResult None), testHeap = (\<lambda>_. newTestResult None),
     expectHeap = (\<lambda>_. newExpectResult None), nextRef = 0\<rparr>"

text \<open>Reading a property of \<open>undefined\<close> throws; that is the only exception of this code.\<close>

datatype error = TypeError

definition andThen :: "error + 'a \<Rightarrow> ('a \<Rightarrow> error + 'b) \<Rightarrow> error + 'b" where
  "andThen m f = (case m of Inl e \<Rightarrow> Inl e | Inr x \<Rightarrow> f x)"

lemma andThen_cong [fundef_cong]:
  "m = m' \<Longrightarrow> (\<And>x. m' = Inr x \<Longrightarrow> f x = f' x) \<Longrightarrow> andThen m f = andThen m' f'"
  by (auto simp: andThen_def split: sum.splits)

lemma andThen_simps [simp]:
  "andThen (Inl e) f = Inl e"
  "andThen (Inr x) f = f x"
  by (simp_all add: andThen_def)

definition deref :: "'a option \<Rightarrow> error + 'a" where
  "deref c = (case c of None \<Rightarrow> Inl TypeError | Some r \<Rightarrow> Inr r)"

lemma deref_simps [simp]:
  "deref None = Inl TypeError"
  "deref (Some r) = Inr r"
  by (simp_all add: deref_def)

subsection \<open>Allocation and update of result objects\<close>

definition updRun :: "ref \<Rightarrow> (Result \<Rightarrow> Result) \<Rightarrow> State \<Rightarrow> State" where
  "updRun r f s = s\<lparr>runHeap := (runHeap s)(r := f (runHeap s r))\<rparr>"

definition updTarget :: "ref \<Rightarrow> (TargetResult \<Rightarrow> TargetResult) \<Rightarrow> State \<Rightarrow> State" where
  "updTarget r f s = s\<lparr>targetHeap := (targetHeap s)(r := f (targetHeap s r))\<rparr>"

definition updProject :: "ref \<Rightarrow> (ProjectResult \<Rightarrow> ProjectResult) \<Rightarrow> State \<Rightarrow> State" where
  "updProject r f s = s\<lparr>projectHeap := (projectHeap s)(r := f (projectHeap s r))\<rparr>"

definition updTask :: "ref \<Rightarrow> (TaskResult \<Rightarrow> TaskResult) \<Rightarrow> State \<Rightarrow> State" where
  "updTask r f s = s\<lparr>taskHeap := (taskHeap s)(r := f (taskHeap s r))\<rparr>"

definition updDescribe :: "ref \<Rightarrow> (DescribeResult \<Rightarrow> DescribeResult) \<Rightarrow> State \<Rightarrow> State" where
  "updDescribe r f s = s\<lparr>describeHeap := (describeHeap s)(r := f (describeHeap s r))\<rparr>"

definition updTest :: "ref \<Rightarrow> (TestResult \<Rightarrow> TestResult) \<Rightarrow> State \<Rightarrow> State" where
  "updTest r f s = s\<lparr>testHeap := (testHeap s)(r := f (testHeap s r))\<rparr>"

definition updExpect :: "ref \<Rightarrow> (ExpectResult \<Rightarrow> ExpectResult) \<Rightarrow> State \<Rightarrow> State" where
  "updExpect r f s = s\<lparr>expectHeap := (expectHeap s)(r := f (expectHeap s r))\<rparr>"

text \<open>\<open>new C(...)\<close>: the object is written at a fresh reference.\<close>

definition allocRun :: "Result \<Rightarrow> State \<Rightarrow> ref \<times> State" where
  "allocRun x s = (nextRef s, s\<lparr>runHeap := (runHeap s)(nextRef s := x), nextRef := nextRef s + 1\<rparr>)"

definition allocTarget :: "TargetResult \<Rightarrow> State \<Rightarrow> ref \<times> State" where
  "allocTarget x s =
     (nextRef s, s\<lparr>targetHeap := (targetHeap s)(nextRef s := x), nextRef := nextRef s + 1\<rparr>)"

definition allocProject :: "ProjectResult \<Rightarrow> State \<Rightarrow> ref \<times> State" where
  "allocProject x s =
     (nextRef s, s\<lparr>projectHeap := (projectHeap s)(nextRef s := x), nextRef := nextRef s + 1\<rparr>)"

definition allocTask :: "TaskResult \<Rightarrow> State \<Rightarrow> ref \<times> State" where
  "allocTask x s =
     (nextRef s, s\<lparr>taskHeap := (taskHeap s)(nextRef s := x), nextRef := nextRef s + 1\<rparr>)"

definition allocDescribe :: "DescribeResult \<Rightarrow> State \<Rightarrow> ref \<times> State" where
  "allocDescribe x s =
     (nextRef s, s\<lparr>describeHeap := (describeHeap s)(nextRef s := x), nextRef := nextRef s + 1\<rparr>)"

definition allocTest :: "TestResult \<Rightarrow> State \<Rightarrow> ref \<times> State" where
  "allocTest x s =
     (nextRef s, s\<lparr>testHeap := (testHeap s)(nextRef s := x), nextRef := nextRef s + 1\<rparr>)"

definition allocExpect :: "ExpectResult \<Rightarrow> State \<Rightarrow> ref \<times> State" where
  "allocExpect x s =
     (nextRef s, s\<lparr>expectHeap := (expectHeap s)(nextRef s := x), nextRef := nextRef s + 1\<rparr>)"

section \<open>ResultHandler\<close>

definition incFailed :: "ResultCount \<Rightarrow> ResultCount" where
  "incFailed c = c\<lparr>failed := failed c + 1\<rparr>"

definition incPassed :: "ResultCount \<Rightarrow> ResultCount" where
  "incPassed c = c\<lparr>passed := passed c + 1\<rparr>"

definition incSkipped :: "ResultCount \<Rightarrow> ResultCount" where
  "incSkipped c = c\<lparr>skipped := skipped c + 1\<rparr>"

definition incTodo :: "ResultCount \<Rightarrow> ResultCount" where
  "incTodo c = c\<lparr>todo := todo c + 1\<rparr>"

text \<open>\<open>x.results.push(child)\<close> for \<open>x\<close> a describe or test result; an expect result has no
  \<open>results\<close>.\<close>

fun pushResult :: "ResultRef \<Rightarrow> ResultRef \<Rightarrow> State \<Rightarrow> error + State" where
  "pushResult (DescribeRef d) x s =
     Inr (updDescribe d (results_describe_update (\<lambda>xs. xs @ [x])) s)"
| "pushResult (TestRef t) x s = Inr (updTest t (results_test_update (\<lambda>xs. xs @ [x])) s)"
| "pushResult (ExpectRef e) x s = Inl TypeError"

fun parentOf :: "ResultRef \<Rightarrow> State \<Rightarrow> ResultRef option" where
  "parentOf (DescribeRef d) s = parent_describe (describeHeap s d)"
| "parentOf (TestRef t) s = parent_test (testHeap s t)"
| "parentOf (ExpectRef e) s = parent_expect (expectHeap s e)"

text \<open>The shared bodies of the five \<open>test:*\<close> and the four \<open>expect:*\<close> terminal cases:
  the counter is bumped on the run and on the task (for an assertion also on the open
  test, if there is one), the status and diagnostics are stored, the cursor is cleared.\<close>

definition closeTest ::
  "(ResultCount \<Rightarrow> ResultCount) \<Rightarrow> ResultStatus \<Rightarrow> Diagnostic list \<Rightarrow> State \<Rightarrow> error + State"
where
  "closeTest inc st ds s =
     andThen (deref (result_h s)) (\<lambda>r.
     andThen (deref (taskResult_h s)) (\<lambda>t.
     andThen (deref (testResult_h s)) (\<lambda>c.
       Inr ((updTest c (\<lambda>x. x\<lparr>status_test := st, diagnostics_test := diagnostics_test x @ ds\<rparr>)
              (updTask t (testCount_task_update inc)
                (updRun r (testCount_update inc) s)))\<lparr>testResult_h := None\<rparr>))))"

definition closeExpect ::
  "(ResultCount \<Rightarrow> ResultCount) \<Rightarrow> ResultStatus \<Rightarrow> Diagnostic list \<Rightarrow> State \<Rightarrow> error + State"
where
  "closeExpect inc st ds s =
     andThen (deref (result_h s)) (\<lambda>r.
     andThen (deref (taskResult_h s)) (\<lambda>t.
     andThen (deref (expectResult_h s)) (\<lambda>e.
       Inr ((updExpect e
               (\<lambda>x. x\<lparr>status_expect := st, diagnostics_expect := diagnostics_expect x @ ds\<rparr>)
              ((case testResult_h s of None \<Rightarrow> id
                | Some c \<Rightarrow> updTest c (expectCount_test_update inc))
                (updTask t (expectCount_task_update inc)
                  (updRun r (expectCount_update inc) s))))\<lparr>expectResult_h := None\<rparr>))))"

fun handleEvent :: "Event \<Rightarrow> State \<Rightarrow> error + State" where
  "handleEvent (RunStart x) s = Inr (s\<lparr>result_h := Some x\<rparr>)"
| "handleEvent (RunEnd x) s =
     andThen (deref (result_h s)) (\<lambda>r. Inr (s\<lparr>result_h := None\<rparr>))"
| "handleEvent (TargetStart x) s =
     andThen (deref (result_h s)) (\<lambda>r.
       Inr ((updRun r (results_update (\<lambda>xs. xs @ [x])) s)\<lparr>targetResult_h := Some x\<rparr>))"
| "handleEvent (TargetEnd x) s =
     andThen (deref (targetResult_h s)) (\<lambda>t.
     andThen (deref (result_h s)) (\<lambda>r.
       Inr ((if status_target (targetHeap s t) = Failed
             then updRun r (targetCount_update incFailed) s
             else updTarget t (status_target_update (\<lambda>_. Passed))
                    (updRun r (targetCount_update incPassed) s))\<lparr>targetResult_h := None\<rparr>)))"
| "handleEvent (StoreError ds) s =
     (if list_ex (\<lambda>d. category d = Error) ds
      then andThen (deref (targetResult_h s)) (\<lambda>t.
             Inr (updTarget t (status_target_update (\<lambda>_. Failed)) s))
      else Inr s)"
| "handleEvent (ProjectUses key) s =
     andThen (deref (targetResult_h s)) (\<lambda>t.
       case map_of (results_target (targetHeap s t)) key of
         Some p \<Rightarrow> Inr (s\<lparr>projectResult_h := Some p\<rparr>)
       | None \<Rightarrow>
           (case allocProject newProjectResult s of (p, s1) \<Rightarrow>
              Inr ((updTarget t (results_target_update (\<lambda>m. m @ [(key, p)])) s1)
                     \<lparr>projectResult_h := Some p\<rparr>)))"
| "handleEvent (ProjectError ds) s =
     andThen (deref (targetResult_h s)) (\<lambda>t.
     andThen (deref (projectResult_h s)) (\<lambda>p.
       Inr (updProject p (diagnostics_project_update (\<lambda>xs. xs @ ds))
              (updTarget t (status_target_update (\<lambda>_. Failed)) s))))"
| "handleEvent (TaskStart x) s =
     andThen (deref (projectResult_h s)) (\<lambda>p.
       Inr ((updProject p (results_project_update (\<lambda>xs. xs @ [x])) s)\<lparr>taskResult_h := Some x\<rparr>))"
| "handleEvent (TaskError ds x) s =
     andThen (deref (targetResult_h s)) (\<lambda>t.
     andThen (deref (taskResult_h s)) (\<lambda>k.
       Inr (updTask k (\<lambda>y. y\<lparr>status_task := Failed, diagnostics_task := diagnostics_task y @ ds\<rparr>)
              (updTarget t (status_target_update (\<lambda>_. Failed)) s))))"
| "handleEvent (TaskEnd x) s =
     andThen (deref (taskResult_h s)) (\<lambda>k.
       if status_task (taskHeap s k) = Failed \<or> failed (expectCount_task (taskHeap s k)) > 0
            \<or> failed (testCount_task (taskHeap s k)) > 0
       then andThen (deref (result_h s)) (\<lambda>r.
            andThen (deref (targetResult_h s)) (\<lambda>t.
              Inr ((updTask k (status_task_update (\<lambda>_. Failed))
                     (updTarget t (status_target_update (\<lambda>_. Failed))
                       (updRun r (fileCount_update incFailed) s)))\<lparr>taskResult_h := None\<rparr>)))
       else andThen (deref (result_h s)) (\<lambda>r.
              Inr ((updTask k (status_task_update (\<lambda>_. Passed))
                     (updRun r (fileCount_update incPassed) s))\<lparr>taskResult_h := None\<rparr>)))"
| "handleEvent (DescribeStart x) s =
     andThen (case describeResult_h s of
                Some d \<Rightarrow> pushResult d (DescribeRef x) s
              | None \<Rightarrow> andThen (deref (taskResult_h s)) (\<lambda>k.
                  Inr (updTask k (results_task_update (\<lambda>xs. xs @ [DescribeRef x])) s)))
       (\<lambda>s1. Inr (s1\<lparr>describeResult_h := Some (DescribeRef x)\<rparr>))"
| "handleEvent (DescribeEnd x) s =
     andThen (deref (describeResult_h s)) (\<lambda>d. Inr (s\<lparr>describeResult_h := parentOf d s\<rparr>))"
| "handleEvent (TestStart x) s =
     andThen (case describeResult_h s of
                Some d \<Rightarrow> pushResult d (TestRef x) s
              | None \<Rightarrow> andThen (deref (taskResult_h s)) (\<lambda>k.
                  Inr (updTask k (results_task_update (\<lambda>xs. xs @ [TestRef x])) s)))
       (\<lambda>s1. Inr (s1\<lparr>testResult_h := Some x\<rparr>))"
| "handleEvent (TestError ds x) s = closeTest incFailed Failed ds s"
| "handleEvent (TestFail x) s = closeTest incFailed Failed [] s"
| "handleEvent (TestPass x) s = closeTest incPassed Passed [] s"
| "handleEvent (TestSkip x) s = closeTest incSkipped Skipped [] s"
| "handleEvent (TestTodo x) s = closeTest incTodo Todo [] s"
| "handleEvent (ExpectStart x) s =
     andThen (case testResult_h s of
                Some c \<Rightarrow> Inr (updTest c (results_test_update (\<lambda>xs. xs @ [ExpectRef x])) s)
              | None \<Rightarrow> andThen (deref (taskResult_h s)) (\<lambda>k.
                  Inr (updTask k (results_task_update (\<lambda>xs. xs @ [ExpectRef x])) s)))
       (\<lambda>s1. Inr (s1\<lparr>expectResult_h := Some x\<rparr>))"
| "handleEvent (ExpectError ds x) s = closeExpect incFailed Failed ds s"
| "handleEvent (ExpectFail ds x) s = closeExpect incFailed Failed [] s"
| "handleEvent (ExpectPass x) s = closeExpect incPassed Passed [] s"
| "handleEvent (ExpectSkip x) s = closeExpect incSkipped Skipped [] s"
| "handleEvent (DeprecationInfo ds) s = Inr s"
| "handleEvent (WatchError ds) s = Inr s"
| "handleEvent StoreAdds s = Inr s"

section \<open>CancellationHandler and dispatch\<close>

definition handleEvent_cancellation :: "CancellationReason \<Rightarrow> Event \<Rightarrow> State \<Rightarrow> State" where
  "handleEvent_cancellation r e s =
     (case payloadDiagnostics e of
        None \<Rightarrow> s
      | Some ds \<Rightarrow>
          if list_ex (\<lambda>d. category d = Error) ds then s\<lparr>token := cancel r (token s)\<rparr> else s)"

text \<open>
  \<open>EventEmitter.dispatch\<close>: the handlers run in the order they were added, the
  \<open>ResultHandler\<close> of the \<open>Runner\<close> first, then the \<open>CancellationHandler\<close> when one is
  subscribed. The reporters are subscribers too; they only render and are left out.
  The event is appended to the log first.
\<close>

definition dispatch :: "Event \<Rightarrow> State \<Rightarrow> error + State" where
  "dispatch e s =
     andThen (handleEvent e (s\<lparr>published := published s @ [e]\<rparr>)) (\<lambda>s1.
       Inr (case cancellationHandler s1 of
              None \<Rightarrow> s1
            | Some r \<Rightarrow> handleEvent_cancellation r e s1))"

section \<open>The test tree\<close>

datatype TestMemberBrand = Describe | Test | Expect

text \<open>
  What the matcher of an assertion does when \<open>ExpectService.match\<close> reaches it is decided
  by the type checker, outside this code. Every matcher either calls \<open>onDiagnostics\<close> once
  and returns nothing, or returns \<open>{ isMatch, explain }\<close> without reporting; the outcome is
  carried by the node.
\<close>

datatype MatchOutcome = Reported "Diagnostic list" | MatchResult bool "Diagnostic list"

text \<open>
  \<open>class TestMember\<close> and its subclass \<open>Assertion\<close>. \<open>flags\<close> is a bit set (\<open>Fail = 1\<close>,
  \<open>Only = 2\<close>, \<open>Skip = 4\<close>, \<open>Todo = 8\<close>); JavaScript's bitwise operators work on 32-bit
  integers. \<open>nodeStart\<close> is \<open>node.getStart()\<close>, \<open>expressionText\<close> is
  \<open>node.expression.getText()\<close>. The last three fields belong to \<open>Assertion\<close> and are
  read for members of brand \<open>Expect\<close> only.
\<close>

datatype TestMember = TestMember
  (brand: TestMemberBrand)
  (flags: "32 word")
  (name: string)
  (nodeStart: nat)
  (expressionText: string)
  (diagnostics: "TsDiagnostic list")
  (members: "TestMember list")
  (isNot: bool)
  (matcherName: string)
  (matchOutcome: MatchOutcome)

lemma size_members [termination_simp]:
  "size_list size (members m) < size m"
  "size_list size (members m) < Suc (size m + k)"
  by (cases m; simp)+

text \<open>\<open>TestMember.validate\<close>: one error for each child that may not be nested here.\<close>

definition nestingText :: "TestMember \<Rightarrow> TestMember \<Rightarrow> string list" where
  "nestingText this member =
     [[CHR 0x27] @ expressionText member @ ''()'' @ [CHR 0x27] @ '' cannot be nested within ''
        @ [CHR 0x27] @ expressionText this @ ''()'' @ [CHR 0x27] @ ''.'']"

definition validate :: "TestMember \<Rightarrow> Diagnostic list" where
  "validate this =
     (case brand this of
        Describe \<Rightarrow>
          map (\<lambda>member. error_d (nestingText this member))
            (filter (\<lambda>member. brand member = Expect) (members this))
      | Test \<Rightarrow>
          map (\<lambda>member. error_d (nestingText this member))
            (filter (\<lambda>member. brand member \<noteq> Expect) (members this))
      | Expect \<Rightarrow>
          map (\<lambda>member. error_d (nestingText this member))
            (filter (\<lambda>member. brand member \<noteq> Expect) (members this)))"

text \<open>The getter \<open>TestTree.hasOnly\<close>: some member at any depth has the \<open>Only\<close> flag.\<close>

fun hasOnly :: "TestMember list \<Rightarrow> bool" where
  "hasOnly [] = False"
| "hasOnly (branch # rest) =
     ((flags branch AND 2 \<noteq> 0 \<or> hasOnly (members branch)) \<or> hasOnly rest)"

section \<open>Run-mode resolution\<close>

record ResolvedConfig =
  failFast :: bool
  only :: "string option"
  skip :: "string option"
  target :: "string list"

text \<open>
  \<open>String.prototype.toLowerCase\<close> and \<open>String.prototype.includes\<close>, on names written in ASCII (a \<open>char\<close>
  is a byte here).
\<close>

definition toLowerCase :: "string \<Rightarrow> string" where
  "toLowerCase str =
     map (\<lambda>c. case map_of (zip ''ABCDEFGHIJKLMNOPQRSTUVWXYZ'' ''abcdefghijklmnopqrstuvwxyz'') c of
               Some l \<Rightarrow> l
             | None \<Rightarrow> c) str"

fun startsWith :: "string \<Rightarrow> string \<Rightarrow> bool" where
  "startsWith str [] = True"
| "startsWith [] (c # search) = False"
| "startsWith (d # str) (c # search) = (d = c \<and> startsWith str search)"

fun includes_s :: "string \<Rightarrow> string \<Rightarrow> bool" where
  "includes_s [] search = (search = [])"
| "includes_s (d # str) search = (startsWith (d # str) search \<or> includes_s str search)"

text \<open>The private fields of \<open>TestTreeWorker\<close> that the traversal reads; the constructor
  computes \<open>#hasOnly\<close>. The cancellation token is shared and lives in the state.\<close>

record TestTreeWorker =
  resolvedConfig :: ResolvedConfig
  hasOnly_w :: bool
  position :: "nat option"
  taskResult_w :: ref

definition newTestTreeWorker ::
  "ResolvedConfig \<Rightarrow> bool \<Rightarrow> nat option \<Rightarrow> ref \<Rightarrow> TestTreeWorker" where
  "newTestTreeWorker cfg treeHasOnly pos tr =
     \<lparr>resolvedConfig = cfg,
      hasOnly_w = (treeHasOnly \<or> only cfg \<noteq> None \<or> pos \<noteq> None),
      position = pos, taskResult_w = tr\<rparr>"

definition nameMatches :: "string option \<Rightarrow> TestMember \<Rightarrow> bool" where
  "nameMatches pattern member =
     (case pattern of
        None \<Rightarrow> False
      | Some p \<Rightarrow> includes_s (toLowerCase (name member)) (toLowerCase p))"

definition resolveRunMode :: "TestTreeWorker \<Rightarrow> 32 word \<Rightarrow> TestMember \<Rightarrow> 32 word" where
  "resolveRunMode w mode0 member =
     (let mode1 = (if flags member AND 1 \<noteq> 0 then mode0 OR 1 else mode0);
          mode2 = (if flags member AND 2 \<noteq> 0 \<or> nameMatches (only (resolvedConfig w)) member
                   then mode1 OR 2 else mode1);
          mode3 = (if flags member AND 4 \<noteq> 0 \<or> nameMatches (skip (resolvedConfig w)) member
                   then mode2 OR 4 else mode2);
          mode4 = (if flags member AND 8 \<noteq> 0 then mode3 OR 8 else mode3);
          mode5 = (if position w \<noteq> None \<and> Some (nodeStart member) = position w
                   then (mode4 OR 2) AND NOT 4 else mode4)
      in mode5)"

section \<open>ExpectService.match\<close>

definition matcherIsDeprecated :: "string \<Rightarrow> string list" where
  "matcherIsDeprecated matcherNameText =
     [''The '' @ [CHR 0x27] @ ''.'' @ matcherNameText @ ''()'' @ [CHR 0x27]
        @ '' matcher is deprecated and will be removed in TSTyche 4.'',
      ''To learn more, visit https://tstyche.org/releases/tstyche-3'']"

text \<open>
  \<open>match(assertion, onDiagnostics)\<close>, with \<open>onDiagnostics\<close> the closure of
  \<open>#visitAssertion\<close> that dispatches \<open>expect:error\<close> for \<open>expectResult\<close>. The result is
  \<open>None\<close> for \<open>undefined\<close> and the pair \<open>(isMatch, explain())\<close> otherwise.
\<close>

definition match ::
  "TestMember \<Rightarrow> ref \<Rightarrow> State \<Rightarrow> error + ((bool \<times> Diagnostic list) option \<times> State)" where
  "match assertion expectResult s =
     andThen
       (if matcherName assertion = ''toMatch''
        then dispatch (DeprecationInfo [warning_d (matcherIsDeprecated (matcherName assertion))]) s
        else Inr s)
       (\<lambda>s1. case matchOutcome assertion of
                Reported ds \<Rightarrow>
                  andThen (dispatch (ExpectError ds expectResult) s1) (\<lambda>s2. Inr (None, s2))
              | MatchResult isMatch explain \<Rightarrow> Inr (Some (isMatch, explain), s1))"

section \<open>TestTreeWorker\<close>

definition supposedToFail :: "string list" where
  "supposedToFail =
     [''The assertion was supposed to fail, but it passed.'',
      ''Consider removing the '' @ [CHR 0x27] @ ''.fail'' @ [CHR 0x27] @ '' flag.'']"

text \<open>The test \<open>runMode & 4 || (this.#hasOnly && !(runMode & 2))\<close> that the three visitors
  share.\<close>

definition isSkipped :: "TestTreeWorker \<Rightarrow> 32 word \<Rightarrow> bool" where
  "isSkipped w runMode = (runMode AND 4 \<noteq> 0 \<or> (hasOnly_w w \<and> \<not> runMode AND 2 \<noteq> 0))"

fun visit ::
    "TestTreeWorker \<Rightarrow> TestMember list \<Rightarrow> 32 word \<Rightarrow> ResultRef option \<Rightarrow> State \<Rightarrow> error + State"
  and visitAssertion ::
    "TestTreeWorker \<Rightarrow> TestMember \<Rightarrow> 32 word \<Rightarrow> ResultRef option \<Rightarrow> State \<Rightarrow> error + State"
  and visitDescribe ::
    "TestTreeWorker \<Rightarrow> TestMember \<Rightarrow> 32 word \<Rightarrow> ResultRef option \<Rightarrow> State \<Rightarrow> error + State"
  and visitTest ::
    "TestTreeWorker \<Rightarrow> TestMember \<Rightarrow> 32 word \<Rightarrow> ResultRef option \<Rightarrow> State \<Rightarrow> error + State"
where
  "visit w [] runMode parentResult s = Inr s"
| "visit w (member # rest) runMode parentResult s =
     (if isCancelled (token s) then Inr s
      else if validate member \<noteq> []
      then dispatch (TaskError (validate member) (taskResult_w w)) s
      else andThen
             (case brand member of
                Describe \<Rightarrow> visitDescribe w member runMode parentResult s
              | Test \<Rightarrow> visitTest w member runMode parentResult s
              | Expect \<Rightarrow> visitAssertion w member runMode parentResult s)
             (\<lambda>s1. visit w rest runMode parentResult s1))"
| "visitAssertion w assertion runMode0 parentResult s =
     andThen (visit w (members assertion) runMode0 parentResult s) (\<lambda>s1.
       case allocExpect (newExpectResult parentResult) s1 of (expectResult, s2) \<Rightarrow>
       andThen (dispatch (ExpectStart expectResult) s2) (\<lambda>s3.
         let runMode = resolveRunMode w runMode0 assertion in
         if isSkipped w runMode then dispatch (ExpectSkip expectResult) s3
         else if diagnostics assertion \<noteq> [] \<and> matcherName assertion \<noteq> ''toRaiseError''
         then dispatch (ExpectError (fromDiagnostics (diagnostics assertion)) expectResult) s3
         else andThen (match assertion expectResult s3) (\<lambda>(matchResult, s4).
           case matchResult of
             None \<Rightarrow> Inr s4
           | Some (isMatch, explain) \<Rightarrow>
               if (if isNot assertion then \<not> isMatch else isMatch)
               then (if runMode AND 1 \<noteq> 0
                     then dispatch (ExpectError [error_d supposedToFail] expectResult) s4
                     else dispatch (ExpectPass expectResult) s4)
               else if runMode AND 1 \<noteq> 0
               then dispatch (ExpectPass expectResult) s4
               else dispatch (ExpectFail explain expectResult) s4)))"
| "visitDescribe w describe runMode0 parentResult s =
     (case allocDescribe (newDescribeResult parentResult) s of (describeResult, s1) \<Rightarrow>
      andThen (dispatch (DescribeStart describeResult) s1) (\<lambda>s2.
        let runMode = resolveRunMode w runMode0 describe in
        andThen
          (if \<not> (isSkipped w runMode \<or> runMode AND 8 \<noteq> 0) \<and> diagnostics describe \<noteq> []
           then dispatch (TaskError (fromDiagnostics (diagnostics describe)) (taskResult_w w)) s2
           else visit w (members describe) runMode (Some (DescribeRef describeResult)) s2)
          (\<lambda>s3. dispatch (DescribeEnd describeResult) s3)))"
| "visitTest w test runMode0 parentResult s =
     (case allocTest (newTestResult parentResult) s of (testResult, s1) \<Rightarrow>
      andThen (dispatch (TestStart testResult) s1) (\<lambda>s2.
        let runMode = resolveRunMode w runMode0 test in
        if runMode AND 8 \<noteq> 0 then dispatch (TestTodo testResult) s2
        else if \<not> isSkipped w runMode \<and> diagnostics test \<noteq> []
        then dispatch (TestError (fromDiagnostics (diagnostics test)) testResult) s2
        else andThen (visit w (members test) runMode (Some (TestRef testResult)) s2) (\<lambda>s3.
          if isSkipped w runMode then dispatch (TestSkip testResult) s3
          else if failed (expectCount_test (testHeap s3 testResult)) > 0
          then dispatch (TestFail testResult) s3
          else dispatch (TestPass testResult) s3)))"

section \<open>TaskRunner and Runner\<close>

text \<open>
  What the project service, the language service and the collector yield for one file
  under one compiler: the project that \<open>openClientFile\<close> assigns and its configuration
  errors, whether a language service, a program and a source file exist, the syntactic
  diagnostics, and the collected test tree (its members and the semantic diagnostics
  that no member took).
\<close>

record FileServices =
  configFileName :: "string option"
  configFileErrors :: "TsDiagnostic list"
  languageService :: bool
  syntacticDiagnostics :: "TsDiagnostic list"
  program :: bool
  sourceFile :: bool
  diagnostics_tree :: "TsDiagnostic list"
  members_tree :: "TestMember list"

type_synonym Compiler = "string \<Rightarrow> FileServices"

record Task =
  filePath :: string
  position_task :: "nat option"

text \<open>\<open>StoreService.load\<close>: what the store dispatches while loading (\<open>store:adds\<close>, or
  \<open>store:error\<close> with one diagnostic), and the compiler, if one could be loaded.\<close>

datatype StoreEvent = Adds | Reports Diagnostic

fun storeEvent :: "StoreEvent \<Rightarrow> Event" where
  "storeEvent Adds = StoreAdds"
| "storeEvent (Reports d) = StoreError [d]"

record StoreLoad =
  storeEvents :: "StoreEvent list"
  compiler :: "Compiler option"

type_synonym StoreService = "string \<Rightarrow> StoreLoad"

fun dispatchAll :: "Event list \<Rightarrow> State \<Rightarrow> error + State" where
  "dispatchAll [] s = Inr s"
| "dispatchAll (e # es) s = andThen (dispatch e s) (dispatchAll es)"

definition openFile :: "FileServices \<Rightarrow> State \<Rightarrow> error + State" where
  "openFile f s =
     andThen (dispatch (ProjectUses (configFileName f)) s) (\<lambda>s1.
       if configFileErrors f \<noteq> []
       then dispatch (ProjectError (fromDiagnostics (configFileErrors f))) s1
       else Inr s1)"

text \<open>\<open>TaskRunner.#run\<close>.\<close>

definition run_file ::
  "ResolvedConfig \<Rightarrow> FileServices \<Rightarrow> Task \<Rightarrow> ref \<Rightarrow> State \<Rightarrow> error + State" where
  "run_file cfg f task taskResult s =
     (if \<not> languageService f then Inr s
      else if syntacticDiagnostics f \<noteq> []
      then dispatch (TaskError (fromDiagnostics (syntacticDiagnostics f)) taskResult) s
      else if \<not> program f then Inr s
      else if \<not> sourceFile f then Inr s
      else if diagnostics_tree f \<noteq> []
      then dispatch (TaskError (fromDiagnostics (diagnostics_tree f)) taskResult) s
      else visit (newTestTreeWorker cfg (hasOnly (members_tree f)) (position_task task) taskResult)
             (members_tree f) 0 None s)"

text \<open>\<open>TaskRunner.run\<close>.\<close>

definition run_task :: "ResolvedConfig \<Rightarrow> Compiler \<Rightarrow> Task \<Rightarrow> State \<Rightarrow> error + State" where
  "run_task cfg c task s =
     (if isCancelled (token s) then Inr s
      else andThen (openFile (c (filePath task)) s) (\<lambda>s1.
        case allocTask (newTaskResult (filePath task)) s1 of (taskResult, s2) \<Rightarrow>
        andThen (dispatch (TaskStart taskResult) s2) (\<lambda>s3.
        andThen (run_file cfg (c (filePath task)) task taskResult s3) (\<lambda>s4.
          dispatch (TaskEnd taskResult) s4))))"

fun run_tasks :: "ResolvedConfig \<Rightarrow> Compiler \<Rightarrow> Task list \<Rightarrow> State \<Rightarrow> error + State" where
  "run_tasks cfg c [] s = Inr s"
| "run_tasks cfg c (task # tasks) s = andThen (run_task cfg c task s) (run_tasks cfg c tasks)"

text \<open>The loop over \<open>resolvedConfig.target\<close> in \<open>Runner.#run\<close>.\<close>

fun run_targets ::
  "ResolvedConfig \<Rightarrow> StoreService \<Rightarrow> Task list \<Rightarrow> string list \<Rightarrow> State \<Rightarrow> error + State" where
  "run_targets cfg store tasks [] s = Inr s"
| "run_targets cfg store tasks (tag # tags) s =
     (case allocTarget (newTargetResult tag) s of (targetResult, s1) \<Rightarrow>
      andThen (dispatch (TargetStart targetResult) s1) (\<lambda>s2.
      andThen (dispatchAll (map storeEvent (storeEvents (store tag))) s2) (\<lambda>s3.
      andThen (case compiler (store tag) of
                 Some c \<Rightarrow> run_tasks cfg c tasks s3
               | None \<Rightarrow> Inr s3) (\<lambda>s4.
      andThen (dispatch (TargetEnd targetResult) s4)
        (run_targets cfg store tasks tags)))))"

text \<open>\<open>Runner.#run\<close>.\<close>

definition run_private :: "ResolvedConfig \<Rightarrow> StoreService \<Rightarrow> Task list \<Rightarrow> State \<Rightarrow> error + State"
where
  "run_private cfg store tasks s =
     (case allocRun newResult s of (result, s1) \<Rightarrow>
      andThen (dispatch (RunStart result) s1) (\<lambda>s2.
      andThen (run_targets cfg store tasks (target cfg) s2) (\<lambda>s3.
      andThen (dispatch (RunEnd result) s3) (\<lambda>s4.
        Inr (if reason (token s4) = Some FailFast then s4\<lparr>token := reset (token s4)\<rparr> else s4)))))"

text \<open>\<open>Runner.run\<close> without watch mode: the \<open>CancellationHandler\<close> is subscribed for the
  length of the run when \<open>failFast\<close> is set.\<close>

definition run :: "ResolvedConfig \<Rightarrow> StoreService \<Rightarrow> Task list \<Rightarrow> State \<Rightarrow> error + State" where
  "run cfg store tasks s =
     andThen
       (run_private cfg store tasks
          (if failFast cfg then s\<lparr>cancellationHandler := Some FailFast\<rparr> else s))
       (\<lambda>s1. Inr (if failFast cfg then s1\<lparr>cancellationHandler := None\<rparr> else s1))"

section \<open>WatchService and Debounce\<close>

text \<open>
  The watch loop is asynchronous; its callbacks run one at a time, so it is modelled as a
  state with one transition for each callback. Of a \<open>Debounce\<close> the state records
  whether a timer set by \<open>setTimeout\<close> is still to fire (\<open>timeoutPending\<close>); the timer
  callback is the transition \<open>onTimeout\<close>, which the runtime takes only while a timer is
  pending. Time itself is not modelled: notifications that arrive within one debounce
  window are transitions with no \<open>onTimeout\<close> between them. Of the generator
  \<open>watch\<close> the state records where it is suspended: at \<open>await debounce.setup()\<close> (then
  \<open>#resolve\<close> resolves a pending promise), at \<open>yield\<close>, or finished; a resolver of a
  promise that was already resolved does nothing. \<open>yielded\<close> lists the batches yielded
  so far, \<open>reported\<close> the \<open>watch:error\<close> diagnostics dispatched.
\<close>

datatype GeneratorState = AwaitingSetup | SuspendedAtYield | Finished

record WatchService =
  changedTestFiles :: "(string \<times> Task) list"
  watchedTestFiles :: "(string \<times> Task) list"
  timeoutPending :: bool
  generator :: GeneratorState
  token_w :: CancellationToken
  yielded :: "Task list list"
  reported :: "Diagnostic list"


definition clearTimeout :: "WatchService \<Rightarrow> WatchService" where
  "clearTimeout st = st\<lparr>timeoutPending := False\<rparr>"


text \<open>The head of \<open>while (!cancellationToken.isCancellationRequested)\<close>, up to the next
  \<open>await debounce.setup()\<close>.\<close>

definition loopHead :: "WatchService \<Rightarrow> WatchService" where
  "loopHead st =
     (if isCancelled (token_w st) then st\<lparr>generator := Finished\<rparr>
      else st\<lparr>generator := AwaitingSetup\<rparr>)"

text \<open>\<open>Debounce.resolveWith\<close>: the awaited promise resolves with \<open>testFiles\<close> and the loop
  body runs, yielding a batch that is not empty.\<close>

definition resolveWith :: "Task list \<Rightarrow> WatchService \<Rightarrow> WatchService" where
  "resolveWith testFiles st =
     (if generator st = AwaitingSetup
      then (if length testFiles > 0
            then st\<lparr>yielded := yielded st @ [testFiles], generator := SuspendedAtYield\<rparr>
            else loopHead st)
      else st)"

text \<open>The consumer asks for the next batch: the generator leaves \<open>yield\<close>.\<close>

definition resume :: "WatchService \<Rightarrow> WatchService" where
  "resume st = (if generator st = SuspendedAtYield then loopHead st else st)"




text \<open>\<open>onRemovedFile\<close>; \<open>pathSelectOptions\<close> are the lines of the diagnostic that echo the
  configuration.\<close>

definition noTestFilesWereLeft :: "string list \<Rightarrow> Diagnostic" where
  "noTestFilesWereLeft pathSelectOptions =
     error_d (''No test files were left to run using current configuration.'' # pathSelectOptions)"

definition onRemovedFile :: "string list \<Rightarrow> string \<Rightarrow> WatchService \<Rightarrow> WatchService" where
  "onRemovedFile pathSelectOptions path st =
     (let st1 = st\<lparr>changedTestFiles := AList.delete path (changedTestFiles st),
                   watchedTestFiles := AList.delete path (watchedTestFiles st)\<rparr> in
      if length (watchedTestFiles st1) = 0
      then (clearTimeout st1)\<lparr>reported := reported st1 @ [noTestFilesWereLeft pathSelectOptions]\<rparr>
      else st1)"

text \<open>The \<open>"\\u000D"\<close>, \<open>"\\u0020"\<close>, \<open>"a"\<close> case of \<open>onInput\<close>: run all watched files now.\<close>

definition onInput_runAll :: "WatchService \<Rightarrow> WatchService" where
  "onInput_runAll st =
     (let st1 = clearTimeout st in
      if length (watchedTestFiles st1) > 0
      then resolveWith (map snd (watchedTestFiles st1)) st1
      else st1)"

text \<open>\<open>onClose(reason)\<close>, for the quit keys and for a change of the configuration file.\<close>

definition onClose :: "CancellationReason \<Rightarrow> WatchService \<Rightarrow> WatchService" where
  "onClose r st = resolveWith [] ((clearTimeout st)\<lparr>token_w := cancel r (token_w st)\<rparr>)"

section \<open>Definitions used to state the properties\<close>

text \<open>
  The bits a node contributes by itself: its own flags and the matches of the \<open>only\<close>
  and \<open>skip\<close> filters against its name.
\<close>

definition localBits :: "TestTreeWorker \<Rightarrow> TestMember \<Rightarrow> 32 word" where
  "localBits w member =
     (if flags member AND 1 \<noteq> 0 then 1 else 0)
     OR (if flags member AND 2 \<noteq> 0 \<or> nameMatches (only (resolvedConfig w)) member then 2 else 0)
     OR (if flags member AND 4 \<noteq> 0 \<or> nameMatches (skip (resolvedConfig w)) member then 4 else 0)
     OR (if flags member AND 8 \<noteq> 0 then 8 else 0)"

text \<open>
  The terminal events of assertions and of tests, by the bucket they belong to, and the
  counts record that a list of events amounts to.
\<close>

fun isExpectFailed :: "Event \<Rightarrow> bool" where
  "isExpectFailed (ExpectError ds r) = True"
| "isExpectFailed (ExpectFail ds r) = True"
| "isExpectFailed e = False"

fun isExpectPassed :: "Event \<Rightarrow> bool" where
  "isExpectPassed (ExpectPass r) = True"
| "isExpectPassed e = False"

fun isExpectSkipped :: "Event \<Rightarrow> bool" where
  "isExpectSkipped (ExpectSkip r) = True"
| "isExpectSkipped e = False"

fun isTestFailed :: "Event \<Rightarrow> bool" where
  "isTestFailed (TestError ds r) = True"
| "isTestFailed (TestFail r) = True"
| "isTestFailed e = False"

fun isTestPassed :: "Event \<Rightarrow> bool" where
  "isTestPassed (TestPass r) = True"
| "isTestPassed e = False"

fun isTestSkipped :: "Event \<Rightarrow> bool" where
  "isTestSkipped (TestSkip r) = True"
| "isTestSkipped e = False"

fun isTestTodo :: "Event \<Rightarrow> bool" where
  "isTestTodo (TestTodo r) = True"
| "isTestTodo e = False"

fun isTestEvent :: "Event \<Rightarrow> bool" where
  "isTestEvent (TestStart r) = True"
| "isTestEvent (TestError ds r) = True"
| "isTestEvent (TestFail r) = True"
| "isTestEvent (TestPass r) = True"
| "isTestEvent (TestSkip r) = True"
| "isTestEvent (TestTodo r) = True"
| "isTestEvent e = False"

fun isExpectEvent :: "Event \<Rightarrow> bool" where
  "isExpectEvent (ExpectStart r) = True"
| "isExpectEvent (ExpectError ds r) = True"
| "isExpectEvent (ExpectFail ds r) = True"
| "isExpectEvent (ExpectPass r) = True"
| "isExpectEvent (ExpectSkip r) = True"
| "isExpectEvent e = False"

fun isRunStart :: "Event \<Rightarrow> bool" where
  "isRunStart (RunStart r) = True"
| "isRunStart e = False"

fun isTaskStart :: "Event \<Rightarrow> bool" where
  "isTaskStart (TaskStart r) = True"
| "isTaskStart e = False"

fun isTaskEnd :: "Event \<Rightarrow> bool" where
  "isTaskEnd (TaskEnd r) = True"
| "isTaskEnd e = False"

fun isTargetEnd :: "Event \<Rightarrow> bool" where
  "isTargetEnd (TargetEnd r) = True"
| "isTargetEnd e = False"

definition occurrences :: "(Event \<Rightarrow> bool) \<Rightarrow> Event list \<Rightarrow> nat" where
  "occurrences P es = length (filter P es)"

definition expectTerminals :: "Event list \<Rightarrow> ResultCount" where
  "expectTerminals es =
     \<lparr>failed = occurrences isExpectFailed es, passed = occurrences isExpectPassed es,
      skipped = occurrences isExpectSkipped es, todo = 0\<rparr>"

definition testTerminals :: "Event list \<Rightarrow> ResultCount" where
  "testTerminals es =
     \<lparr>failed = occurrences isTestFailed es, passed = occurrences isTestPassed es,
      skipped = occurrences isTestSkipped es, todo = occurrences isTestTodo es\<rparr>"

definition addCounts :: "ResultCount \<Rightarrow> ResultCount \<Rightarrow> ResultCount" where
  "addCounts a b =
     \<lparr>failed = failed a + failed b, passed = passed a + passed b,
      skipped = skipped a + skipped b, todo = todo a + todo b\<rparr>"

text \<open>Some inputs on which the properties are exercised.\<close>

definition cfg_filter :: ResolvedConfig where
  "cfg_filter = \<lparr>failFast = False, only = Some ''Num'', skip = None, target = [''5.2'']\<rparr>"

definition worker_at_7 :: TestTreeWorker where
  "worker_at_7 = newTestTreeWorker cfg_filter False (Some 7) 0"

definition skipped_test_at_7 :: TestMember where
  "skipped_test_at_7 =
     TestMember Test 4 ''is string?'' 7 ''test.skip'' [] [] False [] (Reported [])"

definition failing_test_at_30 :: TestMember where
  "failing_test_at_30 =
     TestMember Test 1 ''is number?'' 30 ''test.fail'' [] [] False [] (Reported [])"

section \<open>Definitions used in the proofs\<close>



text \<open>Relations between the state before and after a step: \<open>keeps\<close> for the cursors
  above the tree, \<open>expectSteps\<close> for what the visit of assertions leaves unchanged.\<close>

definition keeps :: "State \<Rightarrow> State \<Rightarrow> bool" where
  "keeps s s' \<longleftrightarrow> result_h s' = result_h s \<and> targetResult_h s' = targetResult_h s
     \<and> projectResult_h s' = projectResult_h s \<and> taskResult_h s' = taskResult_h s
     \<and> cancellationHandler s' = cancellationHandler s"

text \<open>The events that the visit of a list of assertions dispatches.\<close>

fun expectLevel :: "Event \<Rightarrow> bool" where
  "expectLevel (TaskError ds r) = True"
| "expectLevel (ExpectStart r) = True"
| "expectLevel (ExpectError ds r) = True"
| "expectLevel (ExpectFail ds r) = True"
| "expectLevel (ExpectPass r) = True"
| "expectLevel (ExpectSkip r) = True"
| "expectLevel (DeprecationInfo ds) = True"
| "expectLevel e = False"


definition expectSteps :: "State \<Rightarrow> State \<Rightarrow> bool" where
  "expectSteps s s' \<longleftrightarrow>
     result_h s' = result_h s \<and> targetResult_h s' = targetResult_h s
     \<and> projectResult_h s' = projectResult_h s \<and> taskResult_h s' = taskResult_h s
     \<and> describeResult_h s' = describeResult_h s \<and> testResult_h s' = testResult_h s
     \<and> cancellationHandler s' = cancellationHandler s
     \<and> (cancellationHandler s = None \<longrightarrow> token s' = token s)
     \<and> (\<exists>es. published s' = published s @ es \<and> list_all expectLevel es)"

text \<open>Inputs on which the properties are exercised: a configuration without filters,
  the state of the handlers when the traversal of a file starts, and members built
  from their flags.\<close>

definition plainConfig :: ResolvedConfig where
  "plainConfig = \<lparr>failFast = False, only = None, skip = None, target = [''5.2'']\<rparr>"

definition stateInTask :: State where
  "stateInTask = (initialState newCancellationToken)\<lparr>result_h := Some 0, targetResult_h := Some 1,
     projectResult_h := Some 2, taskResult_h := Some 3, nextRef := 4\<rparr>"

definition plainWorker :: TestTreeWorker where
  "plainWorker = newTestTreeWorker plainConfig False None 3"

definition typeMismatch :: "Diagnostic list" where
  "typeMismatch = [error_d [''Type mismatch.'']]"

definition assertion_of :: "32 word \<Rightarrow> nat \<Rightarrow> bool \<Rightarrow> TestMember" where
  "assertion_of fl st isMatch =
     TestMember Expect fl [] st ''expect'' [] [] False ''toBe'' (MatchResult isMatch typeMismatch)"

definition test_of :: "32 word \<Rightarrow> string \<Rightarrow> nat \<Rightarrow> TestMember list \<Rightarrow> TestMember" where
  "test_of fl nm st ms = TestMember Test fl nm st ''test'' [] ms False [] (Reported [])"

definition describe_of ::
  "32 word \<Rightarrow> string \<Rightarrow> nat \<Rightarrow> TsDiagnostic list \<Rightarrow> TestMember list \<Rightarrow> TestMember" where
  "describe_of fl nm st ds ms = TestMember Describe fl nm st ''describe'' ds ms False [] (Reported [])"

definition fileOf :: "TestMember list \<Rightarrow> FileServices" where
  "fileOf ms = \<lparr>configFileName = None, configFileErrors = [], languageService = True,
     syntacticDiagnostics = [], program = True, sourceFile = True, diagnostics_tree = [],
     members_tree = ms\<rparr>"

definition storeOf :: "(string \<Rightarrow> TestMember list) \<Rightarrow> StoreService" where
  "storeOf files = (\<lambda>tag. \<lparr>storeEvents = [], compiler = Some (\<lambda>path. fileOf (files path))\<rparr>)"

definition eventsOf :: "error + State \<Rightarrow> Event list" where
  "eventsOf r = (case r of Inl e \<Rightarrow> [] | Inr s \<Rightarrow> published s)"

definition todoCase :: TestMember where
  "todoCase = test_of 8 ''later'' 0 [assertion_of 0 5 True, assertion_of 0 9 False]"

definition brokenGroup :: TestMember where
  "brokenGroup = describe_of 0 ''broken'' 0 [\<lparr>code = 2322, messageText = ''Type error.''\<rparr>]
     [test_of 0 ''inside'' 5 [assertion_of 0 9 True]]"

definition laterCase :: TestMember where
  "laterCase = test_of 0 ''later sibling'' 40 [assertion_of 0 50 True]"

text \<open>Further inputs: a file of three cases, the events of its run after \<open>run:start\<close>,
  two tasks, a configuration with fail-fast and two targets, a group with an assertion
  as a direct child, and files for the two tasks.\<close>

definition threeCases :: "TestMember list" where
  "threeCases =
     [test_of 0 ''first'' 0 [assertion_of 0 10 True, assertion_of 0 20 True],
      test_of 0 ''second'' 30 [assertion_of 0 40 True, assertion_of 0 50 False],
      test_of 0 ''third'' 60 [assertion_of 0 70 True]]"

definition threeCasesStream :: "Event list" where
  "threeCasesStream =
     [TargetStart 1, ProjectUses None, TaskStart 3,
      TestStart 4, ExpectStart 5, ExpectPass 5, ExpectStart 6, ExpectPass 6, TestPass 4,
      TestStart 7, ExpectStart 8, ExpectPass 8, ExpectStart 9, ExpectFail typeMismatch 9, TestFail 7,
      TestStart 10, ExpectStart 11, ExpectPass 11, TestPass 10,
      TaskEnd 3, TargetEnd 1, RunEnd 0]"

definition task_a :: Task where
  "task_a = \<lparr>filePath = ''a.tst.ts'', position_task = None\<rparr>"

definition failFastConfig :: ResolvedConfig where
  "failFastConfig = \<lparr>failFast = True, only = None, skip = None, target = [''5.2'', ''5.3'']\<rparr>"

definition misplacedAssertion :: TestMember where
  "misplacedAssertion = describe_of 0 ''group'' 0 [] [assertion_of 0 20 True]"

definition goodFile :: "TestMember list" where
  "goodFile = [test_of 0 ''is fine'' 0 [assertion_of 0 10 True]]"

definition task_b :: Task where
  "task_b = \<lparr>filePath = ''b.tst.ts'', position_task = None\<rparr>"

definition badThenGood :: "string \<Rightarrow> TestMember list" where
  "badThenGood path = (if path = ''a.tst.ts'' then [misplacedAssertion] else goodFile)"

definition nestingError :: "Diagnostic list" where
  "nestingError = [error_d [[CHR 0x27] @ ''expect()'' @ [CHR 0x27] @ '' cannot be nested within ''
        @ [CHR 0x27] @ ''describe()'' @ [CHR 0x27] @ ''.'']]"










section \<open>Unfolding sets\<close>

lemmas upd_defs =
  updRun_def updTarget_def updProject_def updTask_def updDescribe_def updTest_def updExpect_def

lemmas alloc_defs =
  allocRun_def allocTarget_def allocProject_def allocTask_def allocDescribe_def allocTest_def
  allocExpect_def

lemmas inc_defs = incFailed_def incPassed_def incSkipped_def incTodo_def

lemmas new_defs =
  newResult_def newTargetResult_def newProjectResult_def newTaskResult_def
  newDescribeResult_def newTestResult_def newExpectResult_def newResultCount_def
  newCancellationToken_def

section \<open>Run-mode resolution\<close>

lemma resolveRunMode_or:
  "resolveRunMode w mode member =
     (if position w = Some (nodeStart member)
      then ((mode OR localBits w member) OR 2) AND NOT 4
      else mode OR localBits w member)"
  by (rule bit_eqI) (auto simp: resolveRunMode_def localBits_def Let_def bit_simps)

lemma only_bit_set: "((x OR 2) AND NOT 4) AND (2::32 word) = 2"
proof -
  have "((x OR 2) AND NOT 4) AND (2::32 word) = (x OR 2) AND 2"
    by (simp add: and.assoc)
  also have "\<dots> = 2"
    by (simp add: and.commute bit.conj_disj_distrib)
  finally show ?thesis .
qed

lemma skip_bit_cleared: "((x OR 2) AND NOT 4) AND (4::32 word) = 0"
  by (simp add: and.assoc)

lemma resolveRunMode_position:
  "position w = Some (nodeStart member) \<Longrightarrow>
     resolveRunMode w mode member AND 2 \<noteq> 0 \<and> resolveRunMode w mode member AND 4 = 0"
  using only_bit_set [of "mode OR localBits w member"]
    skip_bit_cleared [of "mode OR localBits w member"]
  by (simp add: resolveRunMode_or)

lemma resolveRunMode_keeps:
  "position w \<noteq> Some (nodeStart member) \<Longrightarrow> mode AND resolveRunMode w mode member = mode"
  by (simp add: resolveRunMode_or)

lemma resolveRunMode_keeps_but_skip:
  "(mode AND NOT 4) AND resolveRunMode w mode member = mode AND NOT 4"
  by (rule bit_eqI) (auto simp: resolveRunMode_or bit_simps)

text \<open>
  C6. Run-mode resolution. When the position filter does not select the node, the result
  is the inherited mode OR-ed with the node's own bits, so every inherited bit stays set.
  When the position filter equals the node's start, the result is that same disjunction
  with \<open>Only\<close> set and \<open>Skip\<close> cleared, whatever the inherited or local \<open>Skip\<close> was. In both
  cases every inherited bit other than \<open>Skip\<close> is kept.
\<close>

theorem resolveRunMode_inherits:
  "(position w \<noteq> Some (nodeStart member) \<longrightarrow>
      resolveRunMode w mode member = mode OR localBits w member
      \<and> mode AND resolveRunMode w mode member = mode)
   \<and> (position w = Some (nodeStart member) \<longrightarrow>
      resolveRunMode w mode member = ((mode OR localBits w member) OR 2) AND NOT 4
      \<and> resolveRunMode w mode member AND 2 \<noteq> 0
      \<and> resolveRunMode w mode member AND 4 = 0)
   \<and> (mode AND NOT 4) AND resolveRunMode w mode member = mode AND NOT 4"
  using resolveRunMode_position [of w member mode] resolveRunMode_keeps [of w member mode]
    resolveRunMode_keeps_but_skip [of mode w member]
  by (simp add: resolveRunMode_or)

theorem resolveRunMode_inherits_witness:
  "position worker_at_7 = Some (nodeStart skipped_test_at_7)
   \<and> resolveRunMode worker_at_7 12 skipped_test_at_7 = 10
   \<and> resolveRunMode worker_at_7 12 skipped_test_at_7 AND 2 \<noteq> 0
   \<and> resolveRunMode worker_at_7 12 skipped_test_at_7 AND 4 = 0
   \<and> position worker_at_7 \<noteq> Some (nodeStart failing_test_at_30)
   \<and> resolveRunMode worker_at_7 12 failing_test_at_30 = 15
   \<and> 12 AND resolveRunMode worker_at_7 12 failing_test_at_30 = 12"
proof -
  have p7: "position worker_at_7 = Some (nodeStart skipped_test_at_7)"
    by (simp add: worker_at_7_def skipped_test_at_7_def newTestTreeWorker_def)
  have p30: "position worker_at_7 \<noteq> Some (nodeStart failing_test_at_30)"
    by (simp add: worker_at_7_def failing_test_at_30_def newTestTreeWorker_def)
  have b7: "localBits worker_at_7 skipped_test_at_7 = 4"
    by (simp add: localBits_def worker_at_7_def skipped_test_at_7_def newTestTreeWorker_def
        cfg_filter_def nameMatches_def toLowerCase_def)
  have b30: "localBits worker_at_7 failing_test_at_30 = 3"
    by (simp add: localBits_def worker_at_7_def failing_test_at_30_def newTestTreeWorker_def
        cfg_filter_def nameMatches_def toLowerCase_def)
  show ?thesis
    using resolveRunMode_inherits [of worker_at_7 skipped_test_at_7 12]
      resolveRunMode_inherits [of worker_at_7 failing_test_at_30 12] p7 p30
    by (simp add: b7 b30)
qed

section \<open>Counters\<close>

text \<open>
  C10. The total of a counts record is the sum of its four buckets. It is computed from
  them on every read, so after any sequence of events that the handlers accepted, the
  total of each counts record of each level (the run's expect, file, target and test
  counts, a task's expect and test counts, a test's expect counts) is that sum.
\<close>

theorem total_is_sum_of_buckets:
  "total c = failed c + passed c + skipped c + todo c
   \<and> (dispatchAll es s = Inr s' \<longrightarrow>
        (\<forall>c' \<in> {expectCount (runHeap s' r), fileCount (runHeap s' r), targetCount (runHeap s' r),
                 testCount (runHeap s' r), expectCount_task (taskHeap s' k),
                 testCount_task (taskHeap s' k), expectCount_test (testHeap s' t)}.
           total c' = failed c' + passed c' + skipped c' + todo c'))"
  by (simp add: total_def)

theorem total_is_sum_of_buckets_witness:
  "\<exists>s'. dispatchAll [RunStart 0, TargetStart 1, TargetEnd 1] (initialState newCancellationToken)
          = Inr s'
        \<and> passed (targetCount (runHeap s' 0)) = 1
        \<and> total (targetCount (runHeap s' 0)) = 1"
proof -
  obtain s' where
    run: "dispatchAll [RunStart 0, TargetStart 1, TargetEnd 1] (initialState newCancellationToken)
            = Inr s'"
    and buckets: "passed (targetCount (runHeap s' 0)) = 1" "failed (targetCount (runHeap s' 0)) = 0"
      "skipped (targetCount (runHeap s' 0)) = 0" "todo (targetCount (runHeap s' 0)) = 0"
    by (simp add: dispatch_def initialState_def upd_defs inc_defs new_defs)
  from total_is_sum_of_buckets [of "targetCount (runHeap s' 0)"
      "[RunStart 0, TargetStart 1, TargetEnd 1]" "initialState newCancellationToken" s' 0 0 0]
  have "total (targetCount (runHeap s' 0)) = 1"
    using run buckets by simp
  with run buckets show ?thesis by blast
qed

section \<open>Dispatch\<close>

lemma pushResult_frame:
  "pushResult d x s = Inr s' \<Longrightarrow>
     published s' = published s \<and> token s' = token s \<and> cancellationHandler s' = cancellationHandler s"
  by (cases d) (auto simp: upd_defs)

lemma handleEvent_frame:
  "handleEvent e s = Inr s' \<Longrightarrow>
     published s' = published s \<and> token s' = token s \<and> cancellationHandler s' = cancellationHandler s"
  by (cases e)
     (auto simp: closeTest_def closeExpect_def upd_defs alloc_defs andThen_def deref_def
           split: option.splits if_splits sum.splits prod.splits dest: pushResult_frame)

lemma dispatch_published: "dispatch e s = Inr s' \<Longrightarrow> published s' = published s @ [e]"
  by (auto simp: dispatch_def andThen_def handleEvent_cancellation_def
      split: sum.splits option.splits if_splits dest!: handleEvent_frame)


lemma dispatch_token: "dispatch e s = Inr s' \<Longrightarrow> cancellationHandler s = None \<Longrightarrow> token s' = token s"
  by (auto simp: dispatch_def andThen_def handleEvent_cancellation_def
      split: sum.splits option.splits if_splits dest!: handleEvent_frame)

lemma dispatch_stays_cancelled:
  "dispatch e s = Inr s' \<Longrightarrow> isCancelled (token s) \<Longrightarrow> token s' = token s"
  by (auto simp: dispatch_def andThen_def handleEvent_cancellation_def cancel_def
      split: sum.splits option.splits if_splits dest!: handleEvent_frame)

lemma andThenE:
  assumes "andThen m f = Inr t"
  obtains x where "m = Inr x" "f x = Inr t"
  using assms by (cases m) auto

declare visit.simps [simp del] visitAssertion.simps [simp del] visitDescribe.simps [simp del] visitTest.simps [simp del]


lemma visitDescribe_unfold:
  "visitDescribe w d m p s =
     andThen (dispatch (DescribeStart (nextRef s)) (snd (allocDescribe (newDescribeResult p) s)))
       (\<lambda>s2.
     andThen
       (if \<not> (isSkipped w (resolveRunMode w m d) \<or> resolveRunMode w m d AND 8 \<noteq> 0)
             \<and> diagnostics d \<noteq> []
        then dispatch (TaskError (fromDiagnostics (diagnostics d)) (taskResult_w w)) s2
        else visit w (members d) (resolveRunMode w m d) (Some (DescribeRef (nextRef s))) s2)
       (dispatch (DescribeEnd (nextRef s))))"
  by (simp add: visitDescribe.simps alloc_defs Let_def)


lemma visit_Cons_valid:
  "\<not> isCancelled (token s) \<Longrightarrow> validate member = [] \<Longrightarrow>
   visit w (member # rest) m p s =
     andThen (case brand member of
                Describe \<Rightarrow> visitDescribe w member m p s
              | Test \<Rightarrow> visitTest w member m p s
              | Expect \<Rightarrow> visitAssertion w member m p s)
       (visit w rest m p)"
  by (simp add: visit.simps)

lemmas input_defs = plainConfig_def stateInTask_def plainWorker_def typeMismatch_def assertion_of_def
  test_of_def describe_of_def fileOf_def storeOf_def eventsOf_def initialState_def newTestTreeWorker_def

lemmas run_defs = run_def run_private_def run_task_def run_file_def openFile_def dispatch_def
  upd_defs alloc_defs inc_defs new_defs validate_def resolveRunMode_def isSkipped_def match_def
  closeTest_def closeExpect_def nameMatches_def reset_def cancel_def handleEvent_cancellation_def
  visit.simps visitAssertion.simps visitDescribe.simps visitTest.simps fromDiagnostics_def error_d_def

section \<open>The visit of a list of assertions\<close>

lemma expectSteps_refl [simp]: "expectSteps s s"
  by (simp add: expectSteps_def)



lemma expectSteps_alloc [simp]: "expectSteps s (snd (allocExpect x s))"
  by (simp add: expectSteps_def alloc_defs)













section \<open>Assertions\<close>



section \<open>Tests\<close>

text \<open>
  C7. Todo isolation. For a test whose resolved mode has the \<open>Todo\<close> bit, \<open>#visitTest\<close>,
  run while the handler is inside a run and a task, publishes \<open>test:start\<close> and
  \<open>test:todo\<close> and nothing else: the members of the test are not visited, so no
  \<open>expect:*\<close> event is published for them.
\<close>

theorem todo_isolation:
  assumes "result_h s \<noteq> None" and "taskResult_h s \<noteq> None"
    and "\<forall>x. describeResult_h s \<noteq> Some (ExpectRef x)"
    and "resolveRunMode w mode test AND 8 \<noteq> 0"
  shows "\<exists>s'. visitTest w test mode parentResult s = Inr s'
            \<and> published s' = published s @ [TestStart (nextRef s), TestTodo (nextRef s)]"
proof (cases "describeResult_h s")
  case None
  then show ?thesis using assms 
    by (auto simp: visitTest.simps dispatch_def closeTest_def alloc_defs upd_defs handleEvent_cancellation_def 
        split: option.splits)
next
  case (Some d)
  then show ?thesis using assms 
    by (cases d) (auto simp: visitTest.simps dispatch_def closeTest_def alloc_defs upd_defs handleEvent_cancellation_def 
        split: option.splits)
qed



theorem todo_isolation_witness:
  "resolveRunMode plainWorker 0 todoCase AND 8 \<noteq> 0
   \<and> (\<exists>s'. visitTest plainWorker todoCase 0 None stateInTask = Inr s'
          \<and> published s' = [TestStart 4, TestTodo 4])"
  using todo_isolation [of stateInTask plainWorker 0 todoCase None]
  by (simp add: input_defs todoCase_def resolveRunMode_def nameMatches_def)

section \<open>Groups with diagnostics\<close>

lemma dispatch_DescribeStart:
  assumes "taskResult_h s \<noteq> None" and "\<forall>x. describeResult_h s \<noteq> Some (ExpectRef x)"
  shows "\<exists>s'. dispatch (DescribeStart x) s = Inr s' \<and> keeps s s'
           \<and> describeResult_h s' = Some (DescribeRef x) \<and> token s' = token s"
proof (cases "describeResult_h s")
  case None
  with assms show ?thesis
    by (auto simp: dispatch_def keeps_def upd_defs handleEvent_cancellation_def split: option.splits)
next
  case (Some d)
  with assms show ?thesis
    by (cases d)
       (auto simp: dispatch_def keeps_def upd_defs handleEvent_cancellation_def split: option.splits)
qed

lemma list_ex_fromDiagnostics:
  "ds \<noteq> [] \<Longrightarrow> list_ex (\<lambda>d. category d = Error) (fromDiagnostics ds)"
  by (cases ds) (simp_all add: fromDiagnostics_def)

text \<open>
  C4, as the code has it. For a group whose resolved mode is not skipped, pruned or
  todo and that has attached diagnostics, \<open>#visitDescribe\<close> publishes \<open>describe:start\<close>,
  a \<open>task:error\<close> with those diagnostics and \<open>describe:end\<close>; the members of the group
  are not visited. The traversal of the file is not abandoned: the loop of \<open>visit\<close> goes
  on with the later siblings of the group. The token is cancelled only by a subscribed
  \<open>CancellationHandler\<close> (fail-fast), and only then are the later siblings not visited.
\<close>

theorem describe_diagnostics:
  assumes cur: "targetResult_h s \<noteq> None" "taskResult_h s \<noteq> None"
      "\<forall>x. describeResult_h s \<noteq> Some (ExpectRef x)"
    and run: "\<not> (isSkipped w (resolveRunMode w runMode describe)
                \<or> resolveRunMode w runMode describe AND 8 \<noteq> 0)"
    and diag: "diagnostics describe \<noteq> []"
  shows "\<exists>s'. visitDescribe w describe runMode parentResult s = Inr s'
           \<and> published s' =
               published s @ [DescribeStart (nextRef s),
                 TaskError (fromDiagnostics (diagnostics describe)) (taskResult_w w),
                 DescribeEnd (nextRef s)]
           \<and> token s' = (case cancellationHandler s of
                             None \<Rightarrow> token s
                           | Some r \<Rightarrow> cancel r (token s))
           \<and> (brand describe = Describe \<and> validate describe = [] \<and> \<not> isCancelled (token s) \<longrightarrow>
                visit w (describe # rest) runMode parentResult s
                  = visit w rest runMode parentResult s')"
proof -
  let ?s1 = "snd (allocDescribe (newDescribeResult parentResult) s)"
  let ?te = "TaskError (fromDiagnostics (diagnostics describe)) (taskResult_w w)"
  have c1: "taskResult_h ?s1 \<noteq> None" "\<forall>x. describeResult_h ?s1 \<noteq> Some (ExpectRef x)"
    "targetResult_h ?s1 \<noteq> None" "published ?s1 = published s" "token ?s1 = token s"
    "cancellationHandler ?s1 = cancellationHandler s"
    using cur by (simp_all add: alloc_defs)
  from dispatch_DescribeStart [OF c1(1,2), of "nextRef s"] obtain s2 where
    d2: "dispatch (DescribeStart (nextRef s)) ?s1 = Inr s2" and k2: "keeps ?s1 s2"
    and x2: "describeResult_h s2 = Some (DescribeRef (nextRef s))" and t2: "token s2 = token ?s1"
    by blast
  from d2 c1 have p2: "published s2 = published s @ [DescribeStart (nextRef s)]"
    by (auto dest: dispatch_published)
  from k2 c1 obtain t k where tk: "targetResult_h s2 = Some t" "taskResult_h s2 = Some k"
    by (auto simp: keeps_def)
  from k2 c1 have h2: "cancellationHandler s2 = cancellationHandler s" by (simp add: keeps_def)
  obtain s3 where d3: "dispatch ?te s2 = Inr s3"
    and x3: "describeResult_h s3 = Some (DescribeRef (nextRef s))"
    and t3: "token s3 = (case cancellationHandler s of None \<Rightarrow> token s | Some r \<Rightarrow> cancel r (token s))"
    using tk x2 t2 c1 h2 list_ex_fromDiagnostics [OF diag]
    by (auto simp: dispatch_def upd_defs handleEvent_cancellation_def split: option.splits)
  from d3 p2 have p3: "published s3 = published s @ [DescribeStart (nextRef s), ?te]"
    by (auto dest: dispatch_published)
  obtain s' where d4: "dispatch (DescribeEnd (nextRef s)) s3 = Inr s'" and t4: "token s' = token s3"
    using x3 by (auto simp: dispatch_def handleEvent_cancellation_def split: option.splits)
  from d4 p3 have p4: "published s' = published s @ [DescribeStart (nextRef s), ?te, DescribeEnd (nextRef s)]"
    by (auto dest: dispatch_published)
  have v: "visitDescribe w describe runMode parentResult s = Inr s'"
    unfolding visitDescribe_unfold using run diag d2 d3 d4 by simp
  moreover have "visit w (describe # rest) runMode parentResult s = visit w rest runMode parentResult s'"
    if "brand describe = Describe" "validate describe = []" "\<not> isCancelled (token s)"
    using that v by (simp add: visit_Cons_valid)
  ultimately show ?thesis using p4 t3 t4 by auto
qed

theorem describe_diagnostics_witness:
  "\<exists>s'. visitDescribe plainWorker brokenGroup 0 None stateInTask = Inr s'
          \<and> published s' = [DescribeStart 4, TaskError [error_d [''Type error.'']] 3, DescribeEnd 4]
          \<and> token s' = token stateInTask
          \<and> visit plainWorker [brokenGroup, laterCase] 0 None stateInTask
             = visit plainWorker [laterCase] 0 None s'"
  using describe_diagnostics [of stateInTask plainWorker 0 brokenGroup None "[laterCase]"]
  by (simp add: input_defs brokenGroup_def resolveRunMode_def isSkipped_def fromDiagnostics_def
      error_d_def validate_def nameMatches_def newCancellationToken_def)

text \<open>
  C4, as stated, fails: in a file with a group that has diagnostics followed by a test,
  the test and its assertion are visited and their events published after the
  \<open>task:error\<close>.
\<close>

theorem describe_diagnostics_counterexample:
  "eventsOf (run plainConfig (storeOf (\<lambda>path. [brokenGroup, laterCase]))
      [\<lparr>filePath = ''a.tst.ts'', position_task = None\<rparr>] (initialState newCancellationToken))
   = [RunStart 0, TargetStart 1, ProjectUses None, TaskStart 3,
      DescribeStart 4, TaskError [error_d [''Type error.'']] 3, DescribeEnd 4,
      TestStart 5, ExpectStart 6, ExpectPass 6, TestPass 5,
      TaskEnd 3, TargetEnd 1, RunEnd 0]"
  by (simp add: input_defs brokenGroup_def laterCase_def run_defs)


section \<open>Counts\<close>

lemma addCounts_zero [simp]:
  "addCounts c \<lparr>failed = 0, passed = 0, skipped = 0, todo = 0\<rparr> = c"
  by (simp add: addCounts_def)

lemma addCounts_assoc: "addCounts (addCounts a b) c = addCounts a (addCounts b c)"
  by (simp add: addCounts_def)

lemma expectTerminals_Cons:
  "expectTerminals (e # es) = addCounts (expectTerminals [e]) (expectTerminals es)"
  by (simp add: expectTerminals_def addCounts_def occurrences_def)

lemma testTerminals_Cons:
  "testTerminals (e # es) = addCounts (testTerminals [e]) (testTerminals es)"
  by (simp add: testTerminals_def addCounts_def occurrences_def)

lemma occurrences_Cons: "occurrences P (e # es) = occurrences P [e] + occurrences P es"
  by (simp add: occurrences_def)

lemma pushResult_heaps:
  "pushResult d x s = Inr s' \<Longrightarrow>
     runHeap s' = runHeap s \<and> taskHeap s' = taskHeap s
     \<and> expectCount_test (testHeap s' t) = expectCount_test (testHeap s t)
     \<and> result_h s' = result_h s \<and> taskResult_h s' = taskResult_h s
     \<and> testResult_h s' = testResult_h s"
  by (cases d) (auto simp: upd_defs)

lemma handleEvent_run_counts:
  assumes "handleEvent e s = Inr s1" and "\<not> isRunStart e"
    and "result_h s = Some r \<or> result_h s = None"
  shows "expectCount (runHeap s1 r) = addCounts (expectCount (runHeap s r)) (expectTerminals [e])
       \<and> testCount (runHeap s1 r) = addCounts (testCount (runHeap s r)) (testTerminals [e])
       \<and> total (fileCount (runHeap s1 r)) = total (fileCount (runHeap s r)) + occurrences isTaskEnd [e]
       \<and> total (targetCount (runHeap s1 r))
           = total (targetCount (runHeap s r)) + occurrences isTargetEnd [e]
       \<and> (result_h s1 = Some r \<or> result_h s1 = None)"
  using assms
  by (cases e)
     (auto simp: closeTest_def closeExpect_def upd_defs alloc_defs inc_defs addCounts_def
        expectTerminals_def testTerminals_def occurrences_def total_def
        split: option.splits if_splits prod.splits elim!: andThenE dest!: pushResult_heaps)


lemma dispatch_heaps:
  "dispatch e s = Inr s1 \<Longrightarrow>
     \<exists>s0. handleEvent e (s\<lparr>published := published s @ [e]\<rparr>) = Inr s0
        \<and> runHeap s1 = runHeap s0 \<and> taskHeap s1 = taskHeap s0 \<and> testHeap s1 = testHeap s0
        \<and> result_h s1 = result_h s0 \<and> taskResult_h s1 = taskResult_h s0
        \<and> testResult_h s1 = testResult_h s0"
  by (auto simp: dispatch_def handleEvent_cancellation_def elim!: andThenE split: option.splits)

lemma dispatch_run_counts:
  assumes "dispatch e s = Inr s1" and "\<not> isRunStart e"
    and "result_h s = Some r \<or> result_h s = None"
  shows "expectCount (runHeap s1 r) = addCounts (expectCount (runHeap s r)) (expectTerminals [e])
       \<and> testCount (runHeap s1 r) = addCounts (testCount (runHeap s r)) (testTerminals [e])
       \<and> total (fileCount (runHeap s1 r)) = total (fileCount (runHeap s r)) + occurrences isTaskEnd [e]
       \<and> total (targetCount (runHeap s1 r))
           = total (targetCount (runHeap s r)) + occurrences isTargetEnd [e]
       \<and> (result_h s1 = Some r \<or> result_h s1 = None)"
proof -
  from dispatch_heaps [OF assms(1)] obtain s0 where
    h: "handleEvent e (s\<lparr>published := published s @ [e]\<rparr>) = Inr s0"
    and eq: "runHeap s1 = runHeap s0" "result_h s1 = result_h s0"
    by blast
  from handleEvent_run_counts [OF h assms(2), of r] assms(3) eq show ?thesis by simp
qed

lemma counts_run:
  "dispatchAll es s = Inr s' \<Longrightarrow> list_all (\<lambda>e. \<not> isRunStart e) es \<Longrightarrow>
   result_h s = Some r \<or> result_h s = None \<Longrightarrow>
     expectCount (runHeap s' r) = addCounts (expectCount (runHeap s r)) (expectTerminals es)
     \<and> testCount (runHeap s' r) = addCounts (testCount (runHeap s r)) (testTerminals es)
     \<and> total (fileCount (runHeap s' r)) = total (fileCount (runHeap s r)) + occurrences isTaskEnd es
     \<and> total (targetCount (runHeap s' r))
         = total (targetCount (runHeap s r)) + occurrences isTargetEnd es"
proof (induction es arbitrary: s)
  case Nil
  then show ?case by (simp add: expectTerminals_def testTerminals_def occurrences_def)
next
  case (Cons e es)
  from Cons.prems(1) obtain s1 where
    d: "dispatch e s = Inr s1" and r: "dispatchAll es s1 = Inr s'"
    by (auto elim!: andThenE)
  from Cons.prems(2) have ne: "\<not> isRunStart e" and nes: "list_all (\<lambda>e. \<not> isRunStart e) es"
    by simp_all
  note step = dispatch_run_counts [OF d ne Cons.prems(3)]
  from step have c1: "result_h s1 = Some r \<or> result_h s1 = None" by simp
  note rest = Cons.IH [OF r nes c1]
  show ?case
    using step rest
    by (simp add: expectTerminals_Cons [of e es] testTerminals_Cons [of e es]
        occurrences_Cons [of _ e es] addCounts_assoc)
qed


lemma handleEvent_task_counts:
  assumes "handleEvent e s = Inr s1" and "\<not> isTaskStart e"
    and "taskResult_h s = Some k \<or> taskResult_h s = None"
  shows "expectCount_task (taskHeap s1 k)
           = addCounts (expectCount_task (taskHeap s k)) (expectTerminals [e])
       \<and> testCount_task (taskHeap s1 k)
           = addCounts (testCount_task (taskHeap s k)) (testTerminals [e])
       \<and> (taskResult_h s1 = Some k \<or> taskResult_h s1 = None)"
  using assms
  by (cases e)
     (auto simp: closeTest_def closeExpect_def upd_defs alloc_defs inc_defs addCounts_def
        expectTerminals_def testTerminals_def occurrences_def
        split: option.splits if_splits prod.splits elim!: andThenE dest!: pushResult_heaps)

lemma handleEvent_test_counts:
  assumes "handleEvent e s = Inr s1" and "\<not> isTestEvent e" and "testResult_h s = Some t"
  shows "expectCount_test (testHeap s1 t)
           = addCounts (expectCount_test (testHeap s t)) (expectTerminals [e])
       \<and> testResult_h s1 = Some t"
  using assms
  by (cases e)
     (auto simp: closeTest_def closeExpect_def upd_defs alloc_defs inc_defs addCounts_def
        expectTerminals_def testTerminals_def occurrences_def
        split: option.splits if_splits prod.splits elim!: andThenE
        dest!: pushResult_heaps [where t = t])

lemma counts_task:
  "dispatchAll es s = Inr s' \<Longrightarrow> list_all (\<lambda>e. \<not> isTaskStart e) es \<Longrightarrow>
   taskResult_h s = Some k \<or> taskResult_h s = None \<Longrightarrow>
     expectCount_task (taskHeap s' k)
       = addCounts (expectCount_task (taskHeap s k)) (expectTerminals es)
     \<and> testCount_task (taskHeap s' k)
       = addCounts (testCount_task (taskHeap s k)) (testTerminals es)"
proof (induction es arbitrary: s)
  case Nil
  then show ?case by (simp add: expectTerminals_def testTerminals_def occurrences_def)
next
  case (Cons e es)
  from Cons.prems(1) obtain s1 where
    d: "dispatch e s = Inr s1" and r: "dispatchAll es s1 = Inr s'"
    by (auto elim!: andThenE)
  from Cons.prems(2) have ne: "\<not> isTaskStart e" and nes: "list_all (\<lambda>e. \<not> isTaskStart e) es"
    by simp_all
  from dispatch_heaps [OF d] obtain s0 where
    h: "handleEvent e (s\<lparr>published := published s @ [e]\<rparr>) = Inr s0"
    and eq: "taskHeap s1 = taskHeap s0" "taskResult_h s1 = taskResult_h s0"
    by blast
  from handleEvent_task_counts [OF h ne, of k] Cons.prems(3) eq
  have step: "expectCount_task (taskHeap s1 k)
           = addCounts (expectCount_task (taskHeap s k)) (expectTerminals [e])"
       "testCount_task (taskHeap s1 k)
           = addCounts (testCount_task (taskHeap s k)) (testTerminals [e])"
       "taskResult_h s1 = Some k \<or> taskResult_h s1 = None"
    by simp_all
  note rest = Cons.IH [OF r nes step(3)]
  show ?case
    using step rest
    by (simp add: expectTerminals_Cons [of e es] testTerminals_Cons [of e es] addCounts_assoc)
qed

lemma counts_test:
  "dispatchAll es s = Inr s' \<Longrightarrow> list_all (\<lambda>e. \<not> isTestEvent e) es \<Longrightarrow>
   testResult_h s = Some t \<Longrightarrow>
     expectCount_test (testHeap s' t)
       = addCounts (expectCount_test (testHeap s t)) (expectTerminals es)"
proof (induction es arbitrary: s)
  case Nil
  then show ?case by (simp add: expectTerminals_def occurrences_def)
next
  case (Cons e es)
  from Cons.prems(1) obtain s1 where
    d: "dispatch e s = Inr s1" and r: "dispatchAll es s1 = Inr s'"
    by (auto elim!: andThenE)
  from Cons.prems(2) have ne: "\<not> isTestEvent e" and nes: "list_all (\<lambda>e. \<not> isTestEvent e) es"
    by simp_all
  from dispatch_heaps [OF d] obtain s0 where
    h: "handleEvent e (s\<lparr>published := published s @ [e]\<rparr>) = Inr s0"
    and eq: "testHeap s1 = testHeap s0" "testResult_h s1 = testResult_h s0"
    by blast
  from handleEvent_test_counts [OF h ne, of t] Cons.prems(3) eq
  have step: "expectCount_test (testHeap s1 t)
           = addCounts (expectCount_test (testHeap s t)) (expectTerminals [e])"
       "testResult_h s1 = Some t"
    by simp_all
  note rest = Cons.IH [OF r nes step(2)]
  show ?case
    using step rest by (simp add: expectTerminals_Cons [of e es] addCounts_assoc)
qed

lemma dispatchAll_append:
  "dispatchAll (xs @ ys) s = andThen (dispatchAll xs s) (dispatchAll ys)"
  by (induction xs arbitrary: s) (auto simp: andThen_def split: sum.splits)

text \<open>
  C3. Count consistency. Let the handlers accept a stream of events. After every prefix
  \<open>xs\<close> of it, each counts record holds what it held before plus the number of terminal
  events of each kind in \<open>xs\<close>: the expect and test counts of the run (while no other run
  starts), the expect and test counts of the open task (while no other task starts),
  the expect counts of the open test (while it is open); the totals of the run's file
  and target counts grow by the number of \<open>task:end\<close> and \<open>target:end\<close> events. (A
  \<open>TargetResult\<close> has a status and no counts record; targets are counted in the run's
  \<open>targetCount\<close>.) In particular a run with two \<open>test:pass\<close>, one \<open>test:fail\<close>, four
  \<open>expect:pass\<close> and one \<open>expect:fail\<close> has test counts \<open>{passed: 2, failed: 1}\<close> of total 3
  and expect counts \<open>{passed: 4, failed: 1}\<close> of total 5.
\<close>

theorem counts_consistent:
  assumes "dispatchAll (xs @ ys) s = Inr s2"
  shows "\<exists>s'. dispatchAll xs s = Inr s'
     \<and> (result_h s = Some r \<and> list_all (\<lambda>e. \<not> isRunStart e) xs \<longrightarrow>
          expectCount (runHeap s' r) = addCounts (expectCount (runHeap s r)) (expectTerminals xs)
          \<and> testCount (runHeap s' r) = addCounts (testCount (runHeap s r)) (testTerminals xs)
          \<and> total (fileCount (runHeap s' r))
              = total (fileCount (runHeap s r)) + occurrences isTaskEnd xs
          \<and> total (targetCount (runHeap s' r))
              = total (targetCount (runHeap s r)) + occurrences isTargetEnd xs)
     \<and> (taskResult_h s = Some k \<and> list_all (\<lambda>e. \<not> isTaskStart e) xs \<longrightarrow>
          expectCount_task (taskHeap s' k)
            = addCounts (expectCount_task (taskHeap s k)) (expectTerminals xs)
          \<and> testCount_task (taskHeap s' k)
            = addCounts (testCount_task (taskHeap s k)) (testTerminals xs))
     \<and> (testResult_h s = Some t \<and> list_all (\<lambda>e. \<not> isTestEvent e) xs \<longrightarrow>
          expectCount_test (testHeap s' t)
            = addCounts (expectCount_test (testHeap s t)) (expectTerminals xs))
     \<and> (result_h s = Some r \<and> list_all (\<lambda>e. \<not> isRunStart e) xs
          \<and> runHeap s r = newResult
          \<and> testTerminals xs = \<lparr>failed = 1, passed = 2, skipped = 0, todo = 0\<rparr>
          \<and> expectTerminals xs = \<lparr>failed = 1, passed = 4, skipped = 0, todo = 0\<rparr> \<longrightarrow>
          testCount (runHeap s' r) = \<lparr>failed = 1, passed = 2, skipped = 0, todo = 0\<rparr>
          \<and> total (testCount (runHeap s' r)) = 3
          \<and> expectCount (runHeap s' r) = \<lparr>failed = 1, passed = 4, skipped = 0, todo = 0\<rparr>
          \<and> total (expectCount (runHeap s' r)) = 5)"
proof -
  from assms obtain s' where d: "dispatchAll xs s = Inr s'"
    unfolding dispatchAll_append by (rule andThenE)
  have run: "expectCount (runHeap s' r) = addCounts (expectCount (runHeap s r)) (expectTerminals xs)
          \<and> testCount (runHeap s' r) = addCounts (testCount (runHeap s r)) (testTerminals xs)
          \<and> total (fileCount (runHeap s' r))
              = total (fileCount (runHeap s r)) + occurrences isTaskEnd xs
          \<and> total (targetCount (runHeap s' r))
              = total (targetCount (runHeap s r)) + occurrences isTargetEnd xs"
    if "result_h s = Some r" "list_all (\<lambda>e. \<not> isRunStart e) xs"
    using counts_run [OF d that(2), of r] that(1) by simp
  have task: "expectCount_task (taskHeap s' k)
            = addCounts (expectCount_task (taskHeap s k)) (expectTerminals xs)
          \<and> testCount_task (taskHeap s' k)
            = addCounts (testCount_task (taskHeap s k)) (testTerminals xs)"
    if "taskResult_h s = Some k" "list_all (\<lambda>e. \<not> isTaskStart e) xs"
    using counts_task [OF d that(2), of k] that(1) by simp
  have test: "expectCount_test (testHeap s' t)
            = addCounts (expectCount_test (testHeap s t)) (expectTerminals xs)"
    if "testResult_h s = Some t" "list_all (\<lambda>e. \<not> isTestEvent e) xs"
    using counts_test [OF d that(2) that(1)] .
  have example: "testCount (runHeap s' r) = \<lparr>failed = 1, passed = 2, skipped = 0, todo = 0\<rparr>
          \<and> total (testCount (runHeap s' r)) = 3
          \<and> expectCount (runHeap s' r) = \<lparr>failed = 1, passed = 4, skipped = 0, todo = 0\<rparr>
          \<and> total (expectCount (runHeap s' r)) = 5"
    if "result_h s = Some r" "list_all (\<lambda>e. \<not> isRunStart e) xs" "runHeap s r = newResult"
      "testTerminals xs = \<lparr>failed = 1, passed = 2, skipped = 0, todo = 0\<rparr>"
      "expectTerminals xs = \<lparr>failed = 1, passed = 4, skipped = 0, todo = 0\<rparr>"
    using run [OF that(1,2)] that(3-5)
    by (simp add: addCounts_def newResult_def newResultCount_def total_def)
  from d run task test example show ?thesis by blast
qed


theorem counts_consistent_witness:
  "eventsOf (run plainConfig (storeOf (\<lambda>path. threeCases)) [task_a]
      (initialState newCancellationToken)) = RunStart 0 # threeCasesStream
   \<and> (\<exists>s'. dispatchAll threeCasesStream ((initialState newCancellationToken)\<lparr>result_h := Some 0\<rparr>)
             = Inr s'
          \<and> testCount (runHeap s' 0) = \<lparr>failed = 1, passed = 2, skipped = 0, todo = 0\<rparr>
          \<and> total (testCount (runHeap s' 0)) = 3
          \<and> expectCount (runHeap s' 0) = \<lparr>failed = 1, passed = 4, skipped = 0, todo = 0\<rparr>
          \<and> total (expectCount (runHeap s' 0)) = 5)"
proof -
  let ?s = "(initialState newCancellationToken)\<lparr>result_h := Some 0\<rparr>"
  have stream: "eventsOf (run plainConfig (storeOf (\<lambda>path. threeCases)) [task_a]
      (initialState newCancellationToken)) = RunStart 0 # threeCasesStream"
    by (simp add: input_defs threeCases_def threeCasesStream_def task_a_def run_defs)
  obtain s2 where accepted: "dispatchAll (threeCasesStream @ []) ?s = Inr s2"
    by (simp add: threeCasesStream_def initialState_def dispatch_def upd_defs alloc_defs inc_defs
        new_defs closeTest_def closeExpect_def handleEvent_cancellation_def)
  have pre: "result_h ?s = Some 0" "list_all (\<lambda>e. \<not> isRunStart e) threeCasesStream"
    "runHeap ?s 0 = newResult"
    "testTerminals threeCasesStream = \<lparr>failed = 1, passed = 2, skipped = 0, todo = 0\<rparr>"
    "expectTerminals threeCasesStream = \<lparr>failed = 1, passed = 4, skipped = 0, todo = 0\<rparr>"
    by (simp_all add: threeCasesStream_def initialState_def testTerminals_def expectTerminals_def
        occurrences_def)
  from counts_consistent [OF accepted, of 0] pre stream show ?thesis by auto
qed

section \<open>Structural validation\<close>

lemma visit_cancelled: "isCancelled (token s) \<Longrightarrow> visit w ms m p s = Inr s"
  by (cases ms) (simp_all add: visit.simps)

lemma andThen_assoc: "andThen (andThen m f) g = andThen m (\<lambda>x. andThen (f x) g)"
  by (cases m) simp_all

lemma visit_append:
  "\<forall>x\<in>set pre. validate x = [] \<Longrightarrow>
     visit w (pre @ post) m p s = andThen (visit w pre m p s) (visit w post m p)"
proof (induction pre arbitrary: s)
  case Nil
  then show ?case by (simp add: visit.simps)
next
  case (Cons x pre)
  show ?case
  proof (cases "isCancelled (token s)")
    case True
    then show ?thesis by (simp add: visit_cancelled)
  next
    case False
    from Cons.prems have v: "validate x = []" and rest: "\<forall>x\<in>set pre. validate x = []"
      by simp_all
    have "visit w (pre @ post) m p = (\<lambda>s. andThen (visit w pre m p s) (visit w post m p))"
      by (rule ext) (rule Cons.IH [OF rest])
    then show ?thesis
      by (simp add: visit_Cons_valid [OF False v] andThen_assoc)
  qed
qed

lemma validate_group_with_assertion:
  "brand g = Describe \<Longrightarrow> x \<in> set (members g) \<Longrightarrow> brand x = Expect \<Longrightarrow> validate g \<noteq> []"
  by (auto simp: validate_def filter_empty_conv)

lemma validate_case_with_group:
  "brand g = Test \<or> brand g = Expect \<Longrightarrow> x \<in> set (members g) \<Longrightarrow> brand x \<noteq> Expect \<Longrightarrow>
     validate g \<noteq> []"
  by (auto simp: validate_def filter_empty_conv)

lemma list_ex_validate: "validate g \<noteq> [] \<Longrightarrow> list_ex (\<lambda>d. category d = Error) (validate g)"
  by (cases "brand g"; cases "validate g")
     (auto simp: validate_def error_d_def list_ex_iff split: TestMemberBrand.splits)

text \<open>
  C8, as the code has it. When the loop of \<open>visit\<close> reaches, with no cancellation
  requested, the first sibling that fails validation, it publishes one \<open>task:error\<close>
  with the validation diagnostics of that sibling and visits no later sibling of that
  level. A file whose only top-level group has an assertion as a direct child yields
  \<open>project:uses\<close>, \<open>task:start\<close>, one \<open>task:error\<close> and \<open>task:end\<close>, and no
  \<open>describe:*\<close>, \<open>test:*\<close> or \<open>expect:*\<close> event. The cancellation token is left as it was
  unless a \<open>CancellationHandler\<close> is subscribed (fail-fast): then the error diagnostics
  of the \<open>task:error\<close> cancel it, and the remaining files and targets are not run.
\<close>

theorem structural_validation:
  "(validate member \<noteq> [] \<and> (\<forall>x\<in>set pre. validate x = []) \<longrightarrow>
      visit w (pre @ member # post) m p s
        = andThen (visit w pre m p s)
            (\<lambda>s1. if isCancelled (token s1) then Inr s1
                   else dispatch (TaskError (validate member) (taskResult_w w)) s1))
   \<and> (brand g = Describe \<and> x \<in> set (members g) \<and> brand x = Expect
       \<and> c (filePath task) = f \<and> members_tree f = [g] \<and> configFileErrors f = []
       \<and> languageService f \<and> syntacticDiagnostics f = [] \<and> program f \<and> sourceFile f
       \<and> diagnostics_tree f = []
       \<and> result_h s0 \<noteq> None \<and> targetResult_h s0 \<noteq> None \<and> \<not> isCancelled (token s0) \<longrightarrow>
        (\<exists>s' r. run_task cfg c task s0 = Inr s'
            \<and> published s' = published s0 @ [ProjectUses (configFileName f), TaskStart r,
                 TaskError (validate g) r, TaskEnd r]
            \<and> token s' = (case cancellationHandler s0 of
                              None \<Rightarrow> token s0
                            | Some cr \<Rightarrow> cancel cr (token s0))))"
proof (intro conjI impI)
  assume a: "validate member \<noteq> [] \<and> (\<forall>x\<in>set pre. validate x = [])"
  have "visit w (member # post) m p
          = (\<lambda>s1. if isCancelled (token s1) then Inr s1
                   else dispatch (TaskError (validate member) (taskResult_w w)) s1)"
    using a by (intro ext) (simp add: visit.simps)
  with a show "visit w (pre @ member # post) m p s
        = andThen (visit w pre m p s)
            (\<lambda>s1. if isCancelled (token s1) then Inr s1
                   else dispatch (TaskError (validate member) (taskResult_w w)) s1)"
    by (simp add: visit_append)
next
  assume a: "brand g = Describe \<and> x \<in> set (members g) \<and> brand x = Expect
       \<and> c (filePath task) = f \<and> members_tree f = [g] \<and> configFileErrors f = []
       \<and> languageService f \<and> syntacticDiagnostics f = [] \<and> program f \<and> sourceFile f
       \<and> diagnostics_tree f = []
       \<and> result_h s0 \<noteq> None \<and> targetResult_h s0 \<noteq> None \<and> \<not> isCancelled (token s0)"
  then have v: "validate g \<noteq> []" by (auto dest: validate_group_with_assertion)
  then have e: "list_ex (\<lambda>d. category d = Error) (validate g)" by (rule list_ex_validate)
  from a obtain r t where c: "result_h s0 = Some r" "targetResult_h s0 = Some t" by auto
  show "\<exists>s' r. run_task cfg c task s0 = Inr s'
            \<and> published s' = published s0 @ [ProjectUses (configFileName f), TaskStart r,
                 TaskError (validate g) r, TaskEnd r]
            \<and> token s' = (case cancellationHandler s0 of
                              None \<Rightarrow> token s0
                            | Some cr \<Rightarrow> cancel cr (token s0))"
    using a v e c
    by (cases "map_of (results_target (targetHeap s0 t)) (configFileName f)";
        cases "cancellationHandler s0")
       (simp_all add: run_task_def openFile_def run_file_def dispatch_def alloc_defs upd_defs
          handleEvent_cancellation_def visit.simps cancel_def newTestTreeWorker_def)
qed


theorem structural_validation_witness:
  "validate misplacedAssertion = nestingError
   \<and> visit plainWorker ([test_of 0 ''before'' 0 []] @ misplacedAssertion # goodFile) 0 None stateInTask
       = andThen (visit plainWorker [test_of 0 ''before'' 0 []] 0 None stateInTask)
           (\<lambda>s1. if isCancelled (token s1) then Inr s1
                  else dispatch (TaskError nestingError 3) s1)
   \<and> (\<exists>s' r. run_task plainConfig (\<lambda>path. fileOf [misplacedAssertion]) task_a
               ((initialState newCancellationToken)\<lparr>result_h := Some 0, targetResult_h := Some 1,
                   nextRef := 2\<rparr>) = Inr s'
          \<and> published s' = [ProjectUses None, TaskStart r, TaskError nestingError r, TaskEnd r]
          \<and> token s' = newCancellationToken)"
proof -
  let ?s0 = "(initialState newCancellationToken)\<lparr>result_h := Some 0, targetResult_h := Some 1,
                   nextRef := 2\<rparr>"
  let ?f = "fileOf [misplacedAssertion]"
  have v: "validate misplacedAssertion = nestingError"
    by (simp add: misplacedAssertion_def validate_def nestingError_def input_defs nestingText_def)
  have w3: "taskResult_w plainWorker = 3"
    by (simp add: plainWorker_def newTestTreeWorker_def)
  have a: "validate misplacedAssertion \<noteq> []
      \<and> (\<forall>x\<in>set [test_of 0 ''before'' 0 []]. validate x = [])"
    by (simp add: v nestingError_def) (simp add: validate_def test_of_def)
  have b: "brand misplacedAssertion = Describe
       \<and> assertion_of 0 20 True \<in> set (members misplacedAssertion)
       \<and> brand (assertion_of 0 20 True) = Expect
       \<and> (\<lambda>path. ?f) (filePath task_a) = ?f \<and> members_tree ?f = [misplacedAssertion]
       \<and> configFileErrors ?f = []
       \<and> languageService ?f \<and> syntacticDiagnostics ?f = [] \<and> program ?f \<and> sourceFile ?f
       \<and> diagnostics_tree ?f = []
       \<and> result_h ?s0 \<noteq> None \<and> targetResult_h ?s0 \<noteq> None \<and> \<not> isCancelled (token ?s0)"
    by (simp add: misplacedAssertion_def describe_of_def assertion_of_def fileOf_def
        initialState_def newCancellationToken_def)
  have h: "published ?s0 = []" "cancellationHandler ?s0 = None" "token ?s0 = newCancellationToken"
    "configFileName ?f = None"
    by (simp_all add: initialState_def fileOf_def)
  note sv = structural_validation [where member = misplacedAssertion
        and pre = "[test_of 0 ''before'' 0 []]" and w = plainWorker and post = goodFile and m = 0
        and p = None and s = stateInTask and g = misplacedAssertion
        and x = "assertion_of 0 20 True" and c = "\<lambda>path. ?f"
        and task = task_a and f = ?f and cfg = plainConfig and ?s0.0 = ?s0]
  from sv a have 1: "visit plainWorker ([test_of 0 ''before'' 0 []] @ misplacedAssertion # goodFile)
        0 None stateInTask
       = andThen (visit plainWorker [test_of 0 ''before'' 0 []] 0 None stateInTask)
           (\<lambda>s1. if isCancelled (token s1) then Inr s1
                  else dispatch (TaskError (validate misplacedAssertion) (taskResult_w plainWorker)) s1)"
    by blast
  from sv b obtain s' r where 2: "run_task plainConfig (\<lambda>path. ?f) task_a ?s0 = Inr s'"
    "published s' = published ?s0 @ [ProjectUses (configFileName ?f), TaskStart r,
                 TaskError (validate misplacedAssertion) r, TaskEnd r]"
    "token s' = (case cancellationHandler ?s0 of None \<Rightarrow> token ?s0
                 | Some cr \<Rightarrow> cancel cr (token ?s0))"
    by blast
  from 1 2 show ?thesis
    unfolding v w3 h by auto
qed

text \<open>
  C8, as stated, fails: with fail-fast, the file with the misplaced assertion leaves no
  event of the second file, which run alone publishes the events of its test under both
  targets.
\<close>

theorem structural_validation_counterexample:
  "eventsOf (run failFastConfig (storeOf badThenGood) [task_a, task_b]
      (initialState newCancellationToken))
   = [RunStart 0, TargetStart 1, ProjectUses None, TaskStart 3, TaskError nestingError 3, TaskEnd 3,
      TargetEnd 1, TargetStart 4, TargetEnd 4, RunEnd 0]
   \<and> eventsOf (run failFastConfig (storeOf badThenGood) [task_b]
      (initialState newCancellationToken))
   = [RunStart 0, TargetStart 1, ProjectUses None, TaskStart 3,
      TestStart 4, ExpectStart 5, ExpectPass 5, TestPass 4, TaskEnd 3, TargetEnd 1,
      TargetStart 6, ProjectUses None, TaskStart 8,
      TestStart 9, ExpectStart 10, ExpectPass 10, TestPass 9, TaskEnd 8, TargetEnd 6, RunEnd 0]"
  by (simp add: input_defs failFastConfig_def misplacedAssertion_def goodFile_def task_a_def
      task_b_def badThenGood_def nestingError_def nestingText_def run_defs)

section \<open>Fail-fast\<close>








section \<open>Watch mode\<close>


lemma update_same: "AList.update path task [(path, task)] = [(path, task)]"
  by simp




section \<open>Only-pruning\<close>


lemma occurrences_append [simp]: "occurrences P (xs @ ys) = occurrences P xs + occurrences P ys"
  by (simp add: occurrences_def)

lemma occurrences_Nil [simp]: "occurrences P [] = 0"
  by (simp add: occurrences_def)

























end
